theory Spec2Isabelle
  imports Complex_Main "HOL-Library.AList" "HOL-Library.Sublist"
begin

chapter \<open>PlayPatch: gesture-driven synthesis engine and its visual fields\<close>

text \<open>
  The development embeds the pure scale mapper, the pointer handlers of the gesture
  application, the ripple field and the two particle systems of the PlayPatch sources.
  A JavaScript \<^verbatim>\<open>number\<close> is modelled as a \<^typ>\<open>real\<close>: the arithmetic below is
  the exact arithmetic that the double-precision code approximates, so rounding, NaN and
  infinities are outside the model. Clock readings (\<^verbatim>\<open>performance.now()\<close>) and the
  values of \<^verbatim>\<open>Math.random()\<close> are inputs of the operations that read them.
  Record fields carry a short prefix of their interface (\<open>em_x\<close> for \<^verbatim>\<open>emitter.x\<close>),
  since in HOL a field name is a global constant.
\<close>

section \<open>Definitions\<close>

subsection \<open>Numeric helpers\<close>

text \<open>
  \<^verbatim>\<open>const clamp = (value, min, max) => Math.min(Math.max(value, min), max);\<close>
\<close>

definition clamp :: "'a::linorder \<Rightarrow> 'a \<Rightarrow> 'a \<Rightarrow> 'a" where
  "clamp v lo hi = min (max v lo) hi"

subsection \<open>Scale mapper\<close>

definition PENTATONIC_FREQUENCIES :: "real list" where
  "PENTATONIC_FREQUENCIES =
     [261.63, 293.66, 329.63, 392.0, 440.0, 523.25, 587.33, 659.25, 783.99, 880.0]"

definition getPanForPosition :: "real \<Rightarrow> real \<Rightarrow> real" where
  "getPanForPosition x width =
     (if width \<le> 0 then 0 else clamp ((x / width) * 2 - 1) (- 1) 1)"

text \<open>
  The two array reads of \<open>getFrequencyForPosition\<close> are written with \<open>!\<close>; lemma
  \<open>baseIndex_range\<close> below shows that both indices lie inside the ten-element table
  whenever the width is positive, so no read is out of range.
\<close>

definition getFrequencyForPosition :: "real \<Rightarrow> real \<Rightarrow> real" where
  "getFrequencyForPosition x width =
     (if width \<le> 0 then PENTATONIC_FREQUENCIES ! 0
      else
        let position = clamp (x / width) 0 1 * real (length PENTATONIC_FREQUENCIES - 1);
            baseIndex = \<lfloor>position\<rfloor>;
            nextIndex = clamp (baseIndex + 1) 0 (int (length PENTATONIC_FREQUENCIES) - 1);
            fraction = position - real_of_int baseIndex;
            startFreq = PENTATONIC_FREQUENCIES ! nat baseIndex;
            endFreq = PENTATONIC_FREQUENCIES ! nat nextIndex
        in startFreq + (endFreq - startFreq) * fraction)"

text \<open>The gain mapper of the gesture application (upper clamp bound 0.68).\<close>

definition getGainForPosition :: "real \<Rightarrow> real \<Rightarrow> real" where
  "getGainForPosition y height =
     (if height \<le> 0 then 0.45
      else
        let normalized = 1 - clamp (y / height) 0 1
        in clamp (0.18 + normalized * 0.5) 0.12 0.68)"

text \<open>The gain mapper of the grid application (upper clamp bound 0.7).\<close>

definition getGainForPosition_grid :: "real \<Rightarrow> real \<Rightarrow> real" where
  "getGainForPosition_grid y height =
     (if height \<le> 0 then 0.45
      else
        let normalized = 1 - clamp (y / height) 0 1
        in clamp (0.18 + normalized * 0.5) 0.12 0.7)"

subsection \<open>The scale mapper as the specification words it\<close>

text \<open>
  The specification describes the mapper as linear interpolation between the two pitches
  that bracket a fractional index: the pitch at the integer part of the index and the next
  one (the last pitch bracketing itself), weighted by the fractional part.
\<close>

definition bracketInterpolation :: "real list \<Rightarrow> real \<Rightarrow> real" where
  "bracketInterpolation ps index =
     (let lo = nat \<lfloor>index\<rfloor>;
          hi = min (lo + 1) (length ps - 1);
          t = index - real lo
      in (1 - t) * ps ! lo + t * ps ! hi)"

definition scaleIndex :: "real \<Rightarrow> real \<Rightarrow> real" where
  "scaleIndex x width = clamp (x / width) 0 1 * real (length PENTATONIC_FREQUENCIES - 1)"

text \<open>
  An auxiliary closed form used in the proofs: the interpolated pitch is the lowest pitch
  plus, for each scale step, the step's height times the part of the index inside it.
\<close>

definition stepSum :: "real \<Rightarrow> real" where
  "stepSum p = 261.63 + 32.03 * clamp p 0 1 + 35.97 * clamp (p - 1) 0 1
     + 62.37 * clamp (p - 2) 0 1 + 48 * clamp (p - 3) 0 1 + 83.25 * clamp (p - 4) 0 1
     + 64.08 * clamp (p - 5) 0 1 + 71.92 * clamp (p - 6) 0 1 + 124.74 * clamp (p - 7) 0 1
     + 96.01 * clamp (p - 8) 0 1"

subsection \<open>Ripple field (class RainbowField, variant without colours)\<close>

text \<open>
  This is the field the gesture application drives. The JavaScript \<^verbatim>\<open>Map\<close> of emitters
  is an association list: \<open>AList.update\<close> replaces the value of an existing key in
  place and appends a new key at the end, as \<^verbatim>\<open>Map.set\<close> does with the insertion order,
  and \<open>AList.delete\<close> is \<^verbatim>\<open>Map.delete\<close>. The drawing context is acquired in the
  constructor, which throws without one, so a constructed field always has it.
  Every call of \<^verbatim>\<open>renderRipple\<close> is recorded as a value of type \<open>RippleCall\<close>.
\<close>

record RainbowEmitter =
  em_id :: int
  em_x :: real
  em_y :: real
  em_frequency :: real
  em_createdAt :: real
  em_lastUpdate :: real
  em_active :: bool
  em_releaseAt :: "real option"
  em_zIndex :: nat

record RainbowPulse =
  pu_x :: real
  pu_y :: real
  pu_frequency :: real
  pu_createdAt :: real
  pu_ttl :: real

record RainbowField =
  rf_emitters :: "(int \<times> RainbowEmitter) list"
  rf_pulses :: "RainbowPulse list"
  rf_zCounter :: nat
  rf_destroyed :: bool

record RippleCall =
  rc_x :: real
  rc_y :: real
  rc_frequency :: real
  rc_ageMs :: real
  rc_intensity :: real

definition newRainbowField :: RainbowField where
  "newRainbowField = \<lparr>rf_emitters = [], rf_pulses = [], rf_zCounter = 0, rf_destroyed = False\<rparr>"

definition releaseDuration :: real where
  "releaseDuration = 680"

definition setEmitter :: "real \<Rightarrow> int \<Rightarrow> real \<Rightarrow> real \<Rightarrow> real \<Rightarrow> RainbowField \<Rightarrow> RainbowField" where
  "setEmitter now ident x y frequency fld =
     (case map_of (rf_emitters fld) ident of
        Some existing \<Rightarrow>
          let e1 = existing\<lparr>em_x := x, em_y := y, em_frequency := frequency,
                     em_lastUpdate := now\<rparr>;
              e2 = (if \<not> em_active e1
                    then e1\<lparr>em_active := True, em_releaseAt := None, em_createdAt := now\<rparr>
                    else e1)
          in fld\<lparr>rf_emitters := AList.update ident e2 (rf_emitters fld)\<rparr>
      | None \<Rightarrow>
          fld\<lparr>rf_zCounter := rf_zCounter fld + 1,
              rf_emitters := AList.update ident
                \<lparr>em_id = ident, em_x = x, em_y = y, em_frequency = frequency,
                 em_createdAt = now, em_lastUpdate = now, em_active = True,
                 em_releaseAt = None, em_zIndex = rf_zCounter fld + 1\<rparr>
                (rf_emitters fld)\<rparr>)"

definition releaseEmitter :: "real \<Rightarrow> int \<Rightarrow> RainbowField \<Rightarrow> RainbowField" where
  "releaseEmitter now ident fld =
     (case map_of (rf_emitters fld) ident of
        None \<Rightarrow> fld
      | Some emitter \<Rightarrow>
          if \<not> em_active emitter then fld
          else fld\<lparr>rf_emitters := AList.update ident
                 (emitter\<lparr>em_active := False, em_releaseAt := Some now\<rparr>) (rf_emitters fld)\<rparr>)"

definition clearEmitter :: "int \<Rightarrow> RainbowField \<Rightarrow> RainbowField" where
  "clearEmitter ident fld = fld\<lparr>rf_emitters := AList.delete ident (rf_emitters fld)\<rparr>"

definition pulse :: "real \<Rightarrow> real \<Rightarrow> real \<Rightarrow> real \<Rightarrow> real \<Rightarrow> RainbowField \<Rightarrow> RainbowField" where
  "pulse now x y frequency duration fld =
     fld\<lparr>rf_pulses := rf_pulses fld @
       [\<lparr>pu_x = x, pu_y = y, pu_frequency = frequency, pu_createdAt = now,
         pu_ttl = duration\<rparr>]\<rparr>"

definition destroy :: "RainbowField \<Rightarrow> RainbowField" where
  "destroy fld = fld\<lparr>rf_destroyed := True, rf_emitters := [], rf_pulses := []\<rparr>"

text \<open>
  The fade expression of \<^verbatim>\<open>draw\<close>, the same text in both variants of the field:
  \<^verbatim>\<open>emitter.active ? 0.85 : 0.85 * clamp(1 - ((now - (emitter.releaseAt ?? now)) / this.releaseDuration), 0, 1)\<close>
\<close>

definition fadeIntensity :: "real \<Rightarrow> real \<Rightarrow> bool \<Rightarrow> real option \<Rightarrow> real" where
  "fadeIntensity duration now active releaseAt =
     (if active then 0.85
      else 0.85 * clamp (1 - ((now - (case releaseAt of Some r \<Rightarrow> r | None \<Rightarrow> now))
                                / duration)) 0 1)"

text \<open>
  The loop of \<^verbatim>\<open>draw\<close> over the emitters, a snapshot of the map's values sorted by
  \<^verbatim>\<open>zIndex\<close>: an emitter whose intensity is at most 0.001 is deleted from the map and
  skipped, any other is rendered.
\<close>

fun drawEmitters ::
  "real \<Rightarrow> RainbowEmitter list \<Rightarrow> (int \<times> RainbowEmitter) list
    \<Rightarrow> (int \<times> RainbowEmitter) list \<times> RippleCall list" where
  "drawEmitters now [] ems = (ems, [])"
| "drawEmitters now (emitter # rest) ems =
     (let intensity = fadeIntensity releaseDuration now (em_active emitter)
                        (em_releaseAt emitter)
      in if intensity \<le> 0.001
         then drawEmitters now rest (AList.delete (em_id emitter) ems)
         else (case drawEmitters now rest ems of
                 (ems', calls) \<Rightarrow>
                   (ems', \<lparr>rc_x = em_x emitter, rc_y = em_y emitter,
                           rc_frequency = em_frequency emitter,
                           rc_ageMs = now - em_createdAt emitter,
                           rc_intensity = intensity\<rparr> # calls)))"

definition drawPulses :: "real \<Rightarrow> RainbowPulse list \<Rightarrow> RainbowPulse list \<times> RippleCall list" where
  "drawPulses now ps =
     (let remainingPulses = filter (\<lambda>p. \<not> (now - pu_createdAt p > pu_ttl p)) ps
      in (remainingPulses,
          map (\<lambda>p. \<lparr>rc_x = pu_x p, rc_y = pu_y p, rc_frequency = pu_frequency p,
                     rc_ageMs = now - pu_createdAt p,
                     rc_intensity = 0.9 * (1 - (now - pu_createdAt p) / pu_ttl p)\<rparr>)
            remainingPulses))"

definition draw :: "real \<Rightarrow> RainbowField \<Rightarrow> RainbowField \<times> RippleCall list" where
  "draw now fld =
     (case drawEmitters now (sort_key em_zIndex (map snd (rf_emitters fld))) (rf_emitters fld) of
        (ems', calls) \<Rightarrow>
          (case drawPulses now (rf_pulses fld) of
             (ps', pcalls) \<Rightarrow>
               (fld\<lparr>rf_emitters := ems', rf_pulses := ps'\<rparr>, calls @ pcalls)))"

text \<open>One turn of the animation loop started by \<^verbatim>\<open>start\<close>: it stops once destroyed.\<close>

definition frame :: "real \<Rightarrow> RainbowField \<Rightarrow> RainbowField" where
  "frame now fld = (if rf_destroyed fld then fld else fst (draw now fld))"

datatype FieldOp =
    SetEmitter real int real real real
  | ReleaseEmitter real int
  | ClearEmitter int
  | Pulse real real real real real
  | Frame real
  | Destroy

fun fieldOp :: "FieldOp \<Rightarrow> RainbowField \<Rightarrow> RainbowField" where
  "fieldOp (SetEmitter now ident x y f) fld = setEmitter now ident x y f fld"
| "fieldOp (ReleaseEmitter now ident) fld = releaseEmitter now ident fld"
| "fieldOp (ClearEmitter ident) fld = clearEmitter ident fld"
| "fieldOp (Pulse now x y f d) fld = pulse now x y f d fld"
| "fieldOp (Frame now) fld = frame now fld"
| "fieldOp Destroy fld = destroy fld"

definition runField :: "FieldOp list \<Rightarrow> RainbowField \<Rightarrow> RainbowField" where
  "runField ops fld = fold fieldOp ops fld"

text \<open>
  Auxiliary notions for the proofs about the field. In a well-formed map every key occurs
  once and is the \<^verbatim>\<open>id\<close> of its emitter; \<open>fades\<close> is the test of the loop that
  deletes an emitter; \<open>rippleOf\<close> is the call of \<^verbatim>\<open>renderRipple\<close> made for an emitter
  that is kept.
\<close>

definition keysOK :: "(int \<times> RainbowEmitter) list \<Rightarrow> bool" where
  "keysOK ems = (distinct (map fst ems) \<and> list_all (\<lambda>p. em_id (snd p) = fst p) ems)"


definition fades :: "real \<Rightarrow> RainbowEmitter \<Rightarrow> bool" where
  "fades now e = (fadeIntensity releaseDuration now (em_active e) (em_releaseAt e) \<le> 0.001)"




subsection \<open>The gesture application: voices and pointer handlers\<close>

text \<open>
  The state of the component \<^verbatim>\<open>App\<close>: the React refs of the source are the fields of the
  record \<open>App\<close>. A \<open>Voice\<close> stands for the audio nodes of one sustained tone:
  \<open>v_oscillator\<close> names its oscillator node (the nodes are numbered in the order of their
  creation), and the other fields keep, for each audio parameter, the value last written
  or last given as the target of a ramp (the times of the ramps are not kept).
  \<open>oscillators\<close> holds the oscillator nodes of sustained tones that have been started
  and have no stop scheduled, the nodes that sound: \<^verbatim>\<open>handlePointerDown\<close> adds the node
  it starts, and \<^verbatim>\<open>stopVoice\<close>, which alone stops such a node, removes the node of the
  voice that it finds in the map of voices. The maps of voices, release timers and pointer
  metadata are association lists, as the map of emitters is. One-shot sounds leave the
  application as soon as they are started, so each start is recorded in the trace
  \<open>sounds\<close> with the arguments of the call that made it. \<open>timeouts\<close> holds the callbacks
  registered with \<^verbatim>\<open>window.setTimeout\<close> that have neither run nor been cleared: the
  identifier, the pointer and the voice that the callback will disconnect.
  The ripple field is created when the component mounts, before the surface can deliver
  a pointer event, so the optional calls \<^verbatim>\<open>rainbowFieldRef.current?.f(...)\<close> are calls.
  Pointer coordinates are local to the surface, whose size at the time of the event is an
  argument of the handler. The touch-point overlay and the status line are left out.
\<close>

datatype InstrumentType = lead | pad

datatype OscillatorType = sine | square | sawtooth | triangle | custom

record Voice =
  v_oscillator :: nat
  v_instrument :: InstrumentType
  v_oscillatorType :: OscillatorType
  v_frequency :: real
  v_gain :: real
  v_filterFrequency :: real
  v_filterQ :: real
  v_pan :: "real option"

record PointerMeta =
  startX :: real
  startY :: real
  lastX :: real
  lastY :: real
  totalDistance :: real
  startTime :: real
  instrumentLocked :: bool
  triggeredShimmer :: bool

datatype Sound =
    BellChime real real real
  | ShimmerArpeggio real real real

record App =
  audioContext :: bool
  stereoPanner :: bool
  voices :: "(int \<times> Voice) list"
  releaseTimers :: "(int \<times> nat) list"
  activePointers :: "int set"
  pointerMeta :: "(int \<times> PointerMeta) list"
  rainbowField :: RainbowField
  timeouts :: "(nat \<times> int \<times> Voice) list"
  nextTimeoutId :: nat
  sounds :: "Sound list"
  oscillators :: "nat list"
  nextOscillator :: nat

text \<open>
  The mounted component before any event. Its argument says whether the browser offers
  \<^verbatim>\<open>createStereoPanner\<close>. Timer identifiers are positive.
\<close>

definition initApp :: "bool \<Rightarrow> App" where
  "initApp panner =
     \<lparr>audioContext = False, stereoPanner = panner, voices = [], releaseTimers = [],
      activePointers = {}, pointerMeta = [], rainbowField = newRainbowField, timeouts = [],
      nextTimeoutId = 1, sounds = [], oscillators = [], nextOscillator = 0\<rparr>"

text \<open>
  The part of \<^verbatim>\<open>ensureAudioContext\<close> that runs before its first suspension: the context
  is created if there is none and a constructor exists. (The silent unlock buffer that
  follows a successful resume makes no sound and is left out.)
\<close>

definition ensureAudioContext :: "bool \<Rightarrow> App \<Rightarrow> App" where
  "ensureAudioContext constructorExists s =
     (if audioContext s then s else s\<lparr>audioContext := constructorExists\<rparr>)"

definition triggerBellChime :: "real \<Rightarrow> real \<Rightarrow> real \<Rightarrow> real \<Rightarrow> App \<Rightarrow> App" where
  "triggerBellChime x y baseFrequency now s =
     (if \<not> audioContext s then s
      else s\<lparr>sounds := sounds s @ [BellChime x y baseFrequency],
             rainbowField := pulse now x y baseFrequency 1100 (rainbowField s)\<rparr>)"

definition triggerShimmerArpeggio :: "real \<Rightarrow> real \<Rightarrow> real \<Rightarrow> real \<Rightarrow> App \<Rightarrow> App" where
  "triggerShimmerArpeggio x y baseFrequency now s =
     (if \<not> audioContext s then s
      else s\<lparr>sounds := sounds s @ [ShimmerArpeggio x y baseFrequency],
             rainbowField := pulse now x y (baseFrequency * 1.5) 1200 (rainbowField s)\<rparr>)"

definition stopVoice :: "int \<Rightarrow> App \<Rightarrow> App" where
  "stopVoice ident s =
     (case map_of (voices s) ident of
        None \<Rightarrow> s
      | Some voice \<Rightarrow>
          if \<not> audioContext s then s
          else
            let timeoutId = nextTimeoutId s
            in s\<lparr>voices := AList.delete ident (voices s),
                 oscillators := removeAll (v_oscillator voice) (oscillators s),
                 timeouts := timeouts s @ [(timeoutId, ident, voice\<lparr>v_gain := 0\<rparr>)],
                 nextTimeoutId := timeoutId + 1,
                 releaseTimers := AList.update ident timeoutId (releaseTimers s)\<rparr>)"

text \<open>The callback that \<open>stopVoice\<close> registers, run by the browser 250 ms later.\<close>

definition timeoutFired :: "nat \<Rightarrow> App \<Rightarrow> App" where
  "timeoutFired timeoutId s =
     (case find (\<lambda>t. fst t = timeoutId) (timeouts s) of
        None \<Rightarrow> s
      | Some (_, ident, _) \<Rightarrow>
          s\<lparr>timeouts := filter (\<lambda>t. fst t \<noteq> timeoutId) (timeouts s),
            releaseTimers := AList.delete ident (releaseTimers s)\<rparr>)"

text \<open>
  \<^verbatim>\<open>handlePointerDown\<close> is asynchronous. Its first part runs with the event: the pointer
  becomes active and \<^verbatim>\<open>ensureAudioContext\<close> is entered. Its second part runs when the
  awaited promise settles, at once or after other events; \<open>resumed\<close> says that the
  context did not fail to resume. The promise is rejected when there is no context or the
  resume fails. The second part starts the oscillator of the new voice and stores the
  voice with \<^verbatim>\<open>voicesRef.current.set\<close>, which replaces a voice already stored for the
  pointer; the source does not stop the voice it replaces, so the node of that voice
  stays in \<open>oscillators\<close>.
\<close>

definition handlePointerDown_begin :: "bool \<Rightarrow> int \<Rightarrow> App \<Rightarrow> App" where
  "handlePointerDown_begin constructorExists pointerId s =
     ensureAudioContext constructorExists
       (s\<lparr>activePointers := insert pointerId (activePointers s)\<rparr>)"

definition handlePointerDown_resume ::
  "bool \<Rightarrow> int \<Rightarrow> real \<Rightarrow> real \<Rightarrow> real \<Rightarrow> real \<Rightarrow> real \<Rightarrow> App \<Rightarrow> App" where
  "handlePointerDown_resume resumed pointerId x y width height now s =
     (if \<not> (audioContext s \<and> resumed)
      then s\<lparr>activePointers := activePointers s - {pointerId}\<rparr>
      else
        let s1 = (case map_of (releaseTimers s) pointerId of
                    None \<Rightarrow> s
                  | Some releaseTimer \<Rightarrow>
                      if releaseTimer = 0 then s
                      else s\<lparr>timeouts := filter (\<lambda>t. fst t \<noteq> releaseTimer) (timeouts s),
                             releaseTimers := AList.delete pointerId (releaseTimers s)\<rparr>)
        in if pointerId \<notin> activePointers s1 then s1
           else
             let oscillator = nextOscillator s1;
                 frequency = getFrequencyForPosition x width;
                 gainValue = getGainForPosition y height;
                 voice = \<lparr>v_oscillator = oscillator,
                          v_instrument = lead, v_oscillatorType = sine,
                          v_frequency = frequency, v_gain = gainValue,
                          v_filterFrequency = 14000, v_filterQ = 0.001,
                          v_pan = (if stereoPanner s1 then Some (getPanForPosition x width)
                                   else None)\<rparr>
             in s1\<lparr>oscillators := oscillators s1 @ [oscillator],
                    nextOscillator := oscillator + 1,
                    voices := AList.update pointerId voice (voices s1),
                    pointerMeta := AList.update pointerId
                      \<lparr>startX = x, startY = y, lastX = x, lastY = y, totalDistance = 0,
                       startTime = now, instrumentLocked = False, triggeredShimmer = False\<rparr>
                      (pointerMeta s1),
                    rainbowField := setEmitter now pointerId x y frequency (rainbowField s1)\<rparr>)"

definition handlePointerDown ::
  "bool \<Rightarrow> bool \<Rightarrow> int \<Rightarrow> real \<Rightarrow> real \<Rightarrow> real \<Rightarrow> real \<Rightarrow> real \<Rightarrow> App \<Rightarrow> App" where
  "handlePointerDown constructorExists resumed pointerId x y width height now s =
     handlePointerDown_resume resumed pointerId x y width height now
       (handlePointerDown_begin constructorExists pointerId s)"

text \<open>
  \<^verbatim>\<open>handlePointerMove\<close>. The metadata object is mutated in place, so the new last position
  and distance are in the map whichever branch follows. In the pad branch the source
  divides by the height of the surface without a guard.
\<close>

definition handlePointerMove ::
  "int \<Rightarrow> real \<Rightarrow> real \<Rightarrow> real \<Rightarrow> real \<Rightarrow> real \<Rightarrow> App \<Rightarrow> App" where
  "handlePointerMove pointerId x y width height now s =
     (case map_of (voices s) pointerId of
        None \<Rightarrow> s
      | Some voice \<Rightarrow>
     (case map_of (pointerMeta s) pointerId of
        None \<Rightarrow> s
      | Some meta \<Rightarrow>
          if \<not> audioContext s then s
          else
            let dx = x - lastX meta;
                dy = y - lastY meta;
                distance = sqrt (dx\<^sup>2 + dy\<^sup>2);
                meta1 = meta\<lparr>lastX := x, lastY := y,
                          totalDistance := totalDistance meta + distance\<rparr>
            in if triggeredShimmer meta1
               then s\<lparr>pointerMeta := AList.update pointerId meta1 (pointerMeta s)\<rparr>
               else
                 let totalDx = x - startX meta1;
                     totalDy = y - startY meta1;
                     absDx = \<bar>totalDx\<bar>;
                     absDy = \<bar>totalDy\<bar>
                 in if \<not> instrumentLocked meta1 \<and> absDx > 60 \<and> absDy > 60
                        \<and> \<bar>absDx - absDy\<bar> < 40
                    then
                      let meta2 = meta1\<lparr>triggeredShimmer := True\<rparr>;
                          s1 = s\<lparr>pointerMeta := AList.update pointerId meta2 (pointerMeta s)\<rparr>;
                          baseFrequency = getFrequencyForPosition x width;
                          s2 = stopVoice pointerId s1;
                          s3 = s2\<lparr>rainbowField :=
                                  releaseEmitter now pointerId (rainbowField s2)\<rparr>
                      in triggerShimmerArpeggio x y baseFrequency now s3
                    else
                      let toPad = (\<not> instrumentLocked meta1 \<and> absDy > absDx * 1.35
                                   \<and> absDy > 50 \<and> v_instrument voice \<noteq> pad);
                          voice1 = (if toPad
                                    then voice\<lparr>v_instrument := pad,
                                           v_oscillatorType := triangle,
                                           v_filterFrequency := 1200, v_filterQ := 3.2\<rparr>
                                    else voice);
                          meta2 = (if toPad \<or> (\<not> instrumentLocked meta1 \<and> absDx > 40)
                                   then meta1\<lparr>instrumentLocked := True\<rparr> else meta1);
                          frequency = getFrequencyForPosition x width;
                          level = getGainForPosition y height;
                          voice2 = voice1\<lparr>v_frequency := frequency\<rparr>;
                          voice3 =
                            (if v_instrument voice2 = pad
                             then voice2\<lparr>v_gain := clamp (level * 1.35) 0.12 0.78,
                                    v_filterFrequency :=
                                      clamp (420 + (1 - clamp (y / height) 0 1) * 2000) 360 2600,
                                    v_filterQ := 4.2\<rparr>
                             else voice2\<lparr>v_gain := level,
                                    v_pan := (case v_pan voice2 of
                                                None \<Rightarrow> None
                                              | Some _ \<Rightarrow> Some (getPanForPosition x width))\<rparr>)
                      in s\<lparr>pointerMeta := AList.update pointerId meta2 (pointerMeta s),
                           voices := AList.update pointerId voice3 (voices s),
                           rainbowField :=
                             setEmitter now pointerId x y frequency (rainbowField s)\<rparr>))"

definition handlePointerUp :: "int \<Rightarrow> real \<Rightarrow> real \<Rightarrow> real \<Rightarrow> real \<Rightarrow> App \<Rightarrow> App" where
  "handlePointerUp pointerId x y width now s =
     (let s1 = s\<lparr>activePointers := activePointers s - {pointerId}\<rparr>;
          s2 = stopVoice pointerId s1;
          s3 = s2\<lparr>rainbowField := releaseEmitter now pointerId (rainbowField s2)\<rparr>;
          meta = map_of (pointerMeta s3) pointerId;
          s4 = s3\<lparr>pointerMeta := AList.delete pointerId (pointerMeta s3)\<rparr>
      in case meta of
           None \<Rightarrow> s4
         | Some m \<Rightarrow>
             if \<not> audioContext s4 \<or> triggeredShimmer m then s4
             else
               let duration = now - startTime m
               in if duration < 220 \<and> totalDistance m < 32
                  then triggerBellChime x y (getFrequencyForPosition (startX m) width) now s4
                  else s4)"

definition handlePointerCancel :: "int \<Rightarrow> real \<Rightarrow> App \<Rightarrow> App" where
  "handlePointerCancel pointerId now s =
     (let s1 = s\<lparr>activePointers := activePointers s - {pointerId}\<rparr>;
          s2 = stopVoice pointerId s1;
          s3 = s2\<lparr>pointerMeta := AList.delete pointerId (pointerMeta s2)\<rparr>
      in s3\<lparr>rainbowField := releaseEmitter now pointerId (rainbowField s3)\<rparr>)"

text \<open>
  The events that drive the application: the four pointer events, the settling of the
  promise awaited by a pointer-down, a timeout and an animation frame. A run may
  interleave them in any order, which covers every order the browser can produce.
\<close>

datatype Event =
    PointerDown bool int
  | AudioSettled bool int real real real real real
  | PointerMove int real real real real real
  | PointerUp int real real real real
  | PointerCancel int real
  | TimeoutFired nat
  | AnimationFrame real

fun step :: "Event \<Rightarrow> App \<Rightarrow> App" where
  "step (PointerDown constructorExists pointerId) s =
     handlePointerDown_begin constructorExists pointerId s"
| "step (AudioSettled resumed pointerId x y width height now) s =
     handlePointerDown_resume resumed pointerId x y width height now s"
| "step (PointerMove pointerId x y width height now) s =
     handlePointerMove pointerId x y width height now s"
| "step (PointerUp pointerId x y width now) s = handlePointerUp pointerId x y width now s"
| "step (PointerCancel pointerId now) s = handlePointerCancel pointerId now s"
| "step (TimeoutFired timeoutId) s = timeoutFired timeoutId s"
| "step (AnimationFrame now) s = s\<lparr>rainbowField := frame now (rainbowField s)\<rparr>"

definition run :: "Event list \<Rightarrow> App \<Rightarrow> App" where
  "run events s = fold step events s"

subsection \<open>Ripple field with colours (class RainbowField of the grid application)\<close>

text \<open>
  The second variant of the field gives every emitter a colour that glides towards a
  target colour, and fades a released emitter over 200 ms instead of 680 ms. Its
  definitions carry the suffix \<open>C\<close>.
\<close>

record RGBColor =
  rgb_r :: real
  rgb_g :: real
  rgb_b :: real

definition clamp01 :: "real \<Rightarrow> real" where
  "clamp01 v = max 0 (min 1 v)"

definition mixRgb :: "RGBColor \<Rightarrow> RGBColor \<Rightarrow> real \<Rightarrow> RGBColor" where
  "mixRgb a b t =
     (let mix = clamp01 t
      in \<lparr>rgb_r = rgb_r a + (rgb_r b - rgb_r a) * mix,
          rgb_g = rgb_g a + (rgb_g b - rgb_g a) * mix,
          rgb_b = rgb_b a + (rgb_b b - rgb_b a) * mix\<rparr>)"

record RainbowEmitterC =
  cem_id :: int
  cem_x :: real
  cem_y :: real
  cem_frequency :: real
  cem_createdAt :: real
  cem_lastUpdate :: real
  cem_active :: bool
  cem_releaseAt :: "real option"
  cem_zIndex :: nat
  cem_color :: RGBColor
  cem_targetColor :: RGBColor
  cem_startColor :: RGBColor
  cem_colorTransitionStart :: real
  cem_colorTransitionDuration :: real

record RainbowPulseC =
  cpu_x :: real
  cpu_y :: real
  cpu_frequency :: real
  cpu_createdAt :: real
  cpu_ttl :: real
  cpu_color :: RGBColor

record RainbowFieldC =
  cf_emitters :: "(int \<times> RainbowEmitterC) list"
  cf_pulses :: "RainbowPulseC list"
  cf_zCounter :: nat
  cf_destroyed :: bool

record RippleCallC =
  crc_x :: real
  crc_y :: real
  crc_frequency :: real
  crc_ageMs :: real
  crc_intensity :: real
  crc_color :: RGBColor

definition newRainbowFieldC :: RainbowFieldC where
  "newRainbowFieldC = \<lparr>cf_emitters = [], cf_pulses = [], cf_zCounter = 0, cf_destroyed = False\<rparr>"

definition releaseDurationC :: real where
  "releaseDurationC = 200"

definition setEmitterC ::
  "real \<Rightarrow> int \<Rightarrow> real \<Rightarrow> real \<Rightarrow> real \<Rightarrow> RGBColor \<Rightarrow> real \<Rightarrow> RainbowFieldC \<Rightarrow> RainbowFieldC" where
  "setEmitterC now ident x y frequency color transitionDuration fld =
     (case map_of (cf_emitters fld) ident of
        Some existing \<Rightarrow>
          let e1 = existing\<lparr>cem_x := x, cem_y := y, cem_frequency := frequency,
                     cem_lastUpdate := now\<rparr>;
              e2 = (if \<not> cem_active e1
                    then e1\<lparr>cem_active := True, cem_releaseAt := None, cem_createdAt := now\<rparr>
                    else e1);
              needsTransition =
                (\<bar>rgb_r (cem_targetColor e2) - rgb_r color\<bar> > 0.1
                 \<or> \<bar>rgb_g (cem_targetColor e2) - rgb_g color\<bar> > 0.1
                 \<or> \<bar>rgb_b (cem_targetColor e2) - rgb_b color\<bar> > 0.1);
              e3 = (if needsTransition
                    then e2\<lparr>cem_startColor := cem_color e2, cem_targetColor := color,
                           cem_colorTransitionStart := now,
                           cem_colorTransitionDuration := transitionDuration\<rparr>
                    else e2)
          in fld\<lparr>cf_emitters := AList.update ident e3 (cf_emitters fld)\<rparr>
      | None \<Rightarrow>
          fld\<lparr>cf_zCounter := cf_zCounter fld + 1,
              cf_emitters := AList.update ident
                \<lparr>cem_id = ident, cem_x = x, cem_y = y, cem_frequency = frequency,
                 cem_createdAt = now, cem_lastUpdate = now, cem_active = True,
                 cem_releaseAt = None, cem_zIndex = cf_zCounter fld + 1,
                 cem_color = color, cem_targetColor = color, cem_startColor = color,
                 cem_colorTransitionStart = now,
                 cem_colorTransitionDuration = transitionDuration\<rparr>
                (cf_emitters fld)\<rparr>)"

definition releaseEmitterC :: "real \<Rightarrow> int \<Rightarrow> RainbowFieldC \<Rightarrow> RainbowFieldC" where
  "releaseEmitterC now ident fld =
     (case map_of (cf_emitters fld) ident of
        None \<Rightarrow> fld
      | Some emitter \<Rightarrow>
          if \<not> cem_active emitter then fld
          else fld\<lparr>cf_emitters := AList.update ident
                 (emitter\<lparr>cem_active := False, cem_releaseAt := Some now\<rparr>) (cf_emitters fld)\<rparr>)"

definition clearEmitterC :: "int \<Rightarrow> RainbowFieldC \<Rightarrow> RainbowFieldC" where
  "clearEmitterC ident fld = fld\<lparr>cf_emitters := AList.delete ident (cf_emitters fld)\<rparr>"

definition pulseC ::
  "real \<Rightarrow> real \<Rightarrow> real \<Rightarrow> real \<Rightarrow> RGBColor \<Rightarrow> real \<Rightarrow> RainbowFieldC \<Rightarrow> RainbowFieldC" where
  "pulseC now x y frequency color duration fld =
     fld\<lparr>cf_pulses := cf_pulses fld @
       [\<lparr>cpu_x = x, cpu_y = y, cpu_frequency = frequency, cpu_createdAt = now,
         cpu_ttl = duration, cpu_color = color\<rparr>]\<rparr>"

definition destroyC :: "RainbowFieldC \<Rightarrow> RainbowFieldC" where
  "destroyC fld = fld\<lparr>cf_destroyed := True, cf_emitters := [], cf_pulses := []\<rparr>"

text \<open>
  The colour step at the head of the loop body of \<^verbatim>\<open>draw\<close>. The emitter is the object
  stored in the map, so the assignment to its colour is an update of the map's entry
  (\<open>AList.map_entry\<close> in \<open>drawEmittersC\<close>).
\<close>

definition colorStep :: "real \<Rightarrow> RainbowEmitterC \<Rightarrow> RainbowEmitterC" where
  "colorStep now emitter =
     (if cem_colorTransitionDuration emitter > 0
      then
        let elapsed = now - cem_colorTransitionStart emitter;
            progress = clamp (if cem_colorTransitionDuration emitter = 0 then 1
                              else elapsed / cem_colorTransitionDuration emitter) 0 1;
            mixed = mixRgb (cem_startColor emitter) (cem_targetColor emitter) progress;
            e1 = emitter\<lparr>cem_color := mixed\<rparr>
        in if progress \<ge> 1 then e1\<lparr>cem_startColor := mixed\<rparr> else e1
      else emitter)"

fun drawEmittersC ::
  "real \<Rightarrow> RainbowEmitterC list \<Rightarrow> (int \<times> RainbowEmitterC) list
    \<Rightarrow> (int \<times> RainbowEmitterC) list \<times> RippleCallC list" where
  "drawEmittersC now [] ems = (ems, [])"
| "drawEmittersC now (emitter # rest) ems =
     (let e1 = colorStep now emitter;
          ems1 = AList.map_entry (cem_id emitter) (\<lambda>_. e1) ems;
          intensity = fadeIntensity releaseDurationC now (cem_active e1) (cem_releaseAt e1)
      in if intensity \<le> 0.001
         then drawEmittersC now rest (AList.delete (cem_id e1) ems1)
         else (case drawEmittersC now rest ems1 of
                 (ems', calls) \<Rightarrow>
                   (ems', \<lparr>crc_x = cem_x e1, crc_y = cem_y e1,
                           crc_frequency = cem_frequency e1,
                           crc_ageMs = now - cem_createdAt e1,
                           crc_intensity = intensity, crc_color = cem_color e1\<rparr> # calls)))"

definition drawPulsesC ::
  "real \<Rightarrow> RainbowPulseC list \<Rightarrow> RainbowPulseC list \<times> RippleCallC list" where
  "drawPulsesC now ps =
     (let remainingPulses = filter (\<lambda>p. \<not> (now - cpu_createdAt p > cpu_ttl p)) ps
      in (remainingPulses,
          map (\<lambda>p. \<lparr>crc_x = cpu_x p, crc_y = cpu_y p, crc_frequency = cpu_frequency p,
                     crc_ageMs = now - cpu_createdAt p,
                     crc_intensity = 0.9 * (1 - (now - cpu_createdAt p) / cpu_ttl p),
                     crc_color = cpu_color p\<rparr>)
            remainingPulses))"

definition drawC :: "real \<Rightarrow> RainbowFieldC \<Rightarrow> RainbowFieldC \<times> RippleCallC list" where
  "drawC now fld =
     (case drawEmittersC now (sort_key cem_zIndex (map snd (cf_emitters fld)))
             (cf_emitters fld) of
        (ems', calls) \<Rightarrow>
          (case drawPulsesC now (cf_pulses fld) of
             (ps', pcalls) \<Rightarrow>
               (fld\<lparr>cf_emitters := ems', cf_pulses := ps'\<rparr>, calls @ pcalls)))"

definition frameC :: "real \<Rightarrow> RainbowFieldC \<Rightarrow> RainbowFieldC" where
  "frameC now fld = (if cf_destroyed fld then fld else fst (drawC now fld))"

datatype FieldOpC =
    SetEmitterC real int real real real RGBColor real
  | ReleaseEmitterC real int
  | ClearEmitterC int
  | PulseC real real real real RGBColor real
  | FrameC real
  | DestroyC

fun fieldOpC :: "FieldOpC \<Rightarrow> RainbowFieldC \<Rightarrow> RainbowFieldC" where
  "fieldOpC (SetEmitterC now ident x y f c d) fld = setEmitterC now ident x y f c d fld"
| "fieldOpC (ReleaseEmitterC now ident) fld = releaseEmitterC now ident fld"
| "fieldOpC (ClearEmitterC ident) fld = clearEmitterC ident fld"
| "fieldOpC (PulseC now x y f c d) fld = pulseC now x y f c d fld"
| "fieldOpC (FrameC now) fld = frameC now fld"
| "fieldOpC DestroyC fld = destroyC fld"

definition runFieldC :: "FieldOpC list \<Rightarrow> RainbowFieldC \<Rightarrow> RainbowFieldC" where
  "runFieldC ops fld = fold fieldOpC ops fld"

text \<open>The same auxiliary notions for the variant with colours.\<close>

definition keysOKC :: "(int \<times> RainbowEmitterC) list \<Rightarrow> bool" where
  "keysOKC ems = (distinct (map fst ems) \<and> list_all (\<lambda>p. cem_id (snd p) = fst p) ems)"






text \<open>
  Auxiliary notions for the proofs about the gesture application: the invariant \<open>appOK\<close>
  of its reachable states, the diagonal test of \<^verbatim>\<open>handlePointerMove\<close> (\<open>flares\<close>) and
  the metadata after the bookkeeping at the head of that handler (\<open>movedMeta\<close>), the
  events that complete a pointer-down of a given pointer (\<open>settlesFor\<close>), and the states
  whose maps and set of active pointers hold nothing for a pointer (\<open>quiet\<close>).
\<close>

definition appOK :: "App \<Rightarrow> bool" where
  "appOK s =
     (distinct (map fst (voices s)) \<and> keysOK (rf_emitters (rainbowField s))
      \<and> (voices s = [] \<or> audioContext s) \<and> (pointerMeta s = [] \<or> audioContext s))"

definition flares :: "PointerMeta \<Rightarrow> real \<Rightarrow> real \<Rightarrow> bool" where
  "flares meta x y =
     (\<not> instrumentLocked meta \<and> \<bar>x - startX meta\<bar> > 60 \<and> \<bar>y - startY meta\<bar> > 60
      \<and> \<bar>\<bar>x - startX meta\<bar> - \<bar>y - startY meta\<bar>\<bar> < 40)"

definition movedMeta :: "PointerMeta \<Rightarrow> real \<Rightarrow> real \<Rightarrow> PointerMeta" where
  "movedMeta meta x y =
     meta\<lparr>lastX := x, lastY := y,
          totalDistance := totalDistance meta + sqrt ((x - lastX meta)\<^sup>2 + (y - lastY meta)\<^sup>2)\<rparr>"


definition quiet :: "int \<Rightarrow> App \<Rightarrow> bool" where
  "quiet k s =
     (k \<notin> activePointers s \<and> map_of (voices s) k = None \<and> map_of (pointerMeta s) k = None
      \<and> (case map_of (rf_emitters (rainbowField s)) k of None \<Rightarrow> True
          | Some e \<Rightarrow> \<not> em_active e))"

text \<open>
  The metadata and the voice that \<^verbatim>\<open>handlePointerMove\<close> writes on its last path, where
  the tone is re-targeted: the expressions of that path, named for the proofs.
\<close>

definition tonedMeta :: "PointerMeta \<Rightarrow> Voice \<Rightarrow> real \<Rightarrow> real \<Rightarrow> PointerMeta" where
  "tonedMeta meta voice x y =
     (let meta1 = movedMeta meta x y;
          absDx = \<bar>x - startX meta1\<bar>;
          absDy = \<bar>y - startY meta1\<bar>;
          toPad = (\<not> instrumentLocked meta1 \<and> absDy > absDx * 1.35
                   \<and> absDy > 50 \<and> v_instrument voice \<noteq> pad)
      in if toPad \<or> (\<not> instrumentLocked meta1 \<and> absDx > 40)
         then meta1\<lparr>instrumentLocked := True\<rparr> else meta1)"

definition tonedVoice ::
  "PointerMeta \<Rightarrow> Voice \<Rightarrow> real \<Rightarrow> real \<Rightarrow> real \<Rightarrow> real \<Rightarrow> Voice" where
  "tonedVoice meta voice x y width height =
     (let meta1 = movedMeta meta x y;
          absDx = \<bar>x - startX meta1\<bar>;
          absDy = \<bar>y - startY meta1\<bar>;
          toPad = (\<not> instrumentLocked meta1 \<and> absDy > absDx * 1.35
                   \<and> absDy > 50 \<and> v_instrument voice \<noteq> pad);
          voice1 = (if toPad
                    then voice\<lparr>v_instrument := pad, v_oscillatorType := triangle,
                           v_filterFrequency := 1200, v_filterQ := 3.2\<rparr>
                    else voice);
          frequency = getFrequencyForPosition x width;
          level = getGainForPosition y height;
          voice2 = voice1\<lparr>v_frequency := frequency\<rparr>
      in if v_instrument voice2 = pad
         then voice2\<lparr>v_gain := clamp (level * 1.35) 0.12 0.78,
                v_filterFrequency :=
                  clamp (420 + (1 - clamp (y / height) 0 1) * 2000) 360 2600,
                v_filterQ := 4.2\<rparr>
         else voice2\<lparr>v_gain := level,
                v_pan := (case v_pan voice2 of
                            None \<Rightarrow> None
                          | Some _ \<Rightarrow> Some (getPanForPosition x width))\<rparr>)"

subsection \<open>Particle field (class AuroraField)\<close>

text \<open>
  \<^verbatim>\<open>Math.random()\<close> is a stream of numbers given from outside, \<open>rnd :: nat \<Rightarrow> real\<close>;
  the field counts the calls made so far and the next call reads the stream there.
  The module-level counter \<^verbatim>\<open>PARTICLE_ID\<close> is kept with the field. As for the ripple
  field, the constructor throws without a drawing context, so the guard on the context
  never fires in a constructed object and only the guard on \<^verbatim>\<open>destroyed\<close> is kept.
\<close>

datatype AuroraVariant = lead_v | pad_v | chime_v | shimmer_v

record AuroraParticle =
  ap_id :: nat
  ap_x :: real
  ap_y :: real
  ap_vx :: real
  ap_vy :: real
  ap_life :: real
  ap_ttl :: real
  ap_size :: real
  ap_growth :: real
  ap_r :: nat
  ap_g :: nat
  ap_b :: nat
  ap_alpha :: real
  ap_glow :: real
  ap_spin :: real

record VariantConfig =
  vc_minSpeed :: real
  vc_maxSpeed :: real
  vc_count :: nat
  vc_ttl :: "real \<times> real"
  vc_size :: "real \<times> real"
  vc_growth :: "real \<times> real"
  vc_alpha :: "real \<times> real"
  vc_drag :: real
  vc_glow :: "real \<times> real"
  vc_spin :: "real \<times> real"
  vc_turbulence :: real

fun VARIANT_CONFIG :: "AuroraVariant \<Rightarrow> VariantConfig" where
  "VARIANT_CONFIG lead_v =
     \<lparr>vc_minSpeed = 120, vc_maxSpeed = 240, vc_count = 16, vc_ttl = (0.65, 1.1),
      vc_size = (12, 22), vc_growth = (16, 36), vc_alpha = (0.35, 0.55), vc_drag = 0.86,
      vc_glow = (18, 28), vc_spin = (- 1.6, 1.6), vc_turbulence = 18\<rparr>"
| "VARIANT_CONFIG pad_v =
     \<lparr>vc_minSpeed = 60, vc_maxSpeed = 140, vc_count = 24, vc_ttl = (1.25, 1.8),
      vc_size = (22, 40), vc_growth = (12, 26), vc_alpha = (0.22, 0.38), vc_drag = 0.9,
      vc_glow = (32, 44), vc_spin = (- 0.8, 0.8), vc_turbulence = 28\<rparr>"
| "VARIANT_CONFIG chime_v =
     \<lparr>vc_minSpeed = 220, vc_maxSpeed = 420, vc_count = 28, vc_ttl = (0.45, 0.8),
      vc_size = (10, 18), vc_growth = (30, 46), vc_alpha = (0.45, 0.68), vc_drag = 0.82,
      vc_glow = (14, 24), vc_spin = (- 2.6, 2.6), vc_turbulence = 42\<rparr>"
| "VARIANT_CONFIG shimmer_v =
     \<lparr>vc_minSpeed = 140, vc_maxSpeed = 260, vc_count = 34, vc_ttl = (0.8, 1.4),
      vc_size = (16, 28), vc_growth = (18, 34), vc_alpha = (0.32, 0.52), vc_drag = 0.87,
      vc_glow = (26, 40), vc_spin = (- 3.2, 3.2), vc_turbulence = 56\<rparr>"

text \<open>\<^verbatim>\<open>randomInRange\<close>, with the value of its call of \<^verbatim>\<open>Math.random()\<close> as first argument.\<close>

definition randomInRange :: "real \<Rightarrow> real \<Rightarrow> real \<Rightarrow> real" where
  "randomInRange r lo hi = r * (hi - lo) + lo"

text \<open>
  \<^verbatim>\<open>hexToRgb\<close>: the first \<^verbatim>\<open>#\<close> is removed, \<^verbatim>\<open>parseInt(_, 16)\<close> reads the longest prefix of
  hexadecimal digits (none gives NaN, which the shifts turn into 0), and the three bytes
  are cut out by shifts and masks. The model covers the strings the callers pass, the
  colours of the palette; the white space, sign and \<^verbatim>\<open>0x\<close> prefix that \<^verbatim>\<open>parseInt\<close> would
  also accept, and numbers beyond \<open>2\<^sup>5\<^sup>3\<close>, are outside it.
\<close>

definition hexDigit :: "char \<Rightarrow> nat option" where
  "hexDigit c =
     (let n = (of_char c :: nat)
      in if 48 \<le> n \<and> n \<le> 57 then Some (n - 48)
         else if 97 \<le> n \<and> n \<le> 102 then Some (n - 87)
         else if 65 \<le> n \<and> n \<le> 70 then Some (n - 55)
         else None)"

fun parseHexDigits :: "nat option \<Rightarrow> string \<Rightarrow> nat option" where
  "parseHexDigits acc [] = acc"
| "parseHexDigits acc (c # cs) =
     (case hexDigit c of
        None \<Rightarrow> acc
      | Some d \<Rightarrow> parseHexDigits (Some ((case acc of None \<Rightarrow> 0 | Some a \<Rightarrow> a) * 16 + d)) cs)"

definition hexToRgb :: "string \<Rightarrow> nat \<times> nat \<times> nat" where
  "hexToRgb hex =
     (let normalized = remove1 (CHR ''#'') hex;
          bigint = (case parseHexDigits None normalized of None \<Rightarrow> 0 | Some n \<Rightarrow> n)
      in ((bigint div 65536) mod 256, (bigint div 256) mod 256, bigint mod 256))"

record AuroraField =
  af_particles :: "AuroraParticle list"
  af_lastTime :: "real option"
  af_destroyed :: bool
  af_particleId :: nat
  af_randomCalls :: nat

definition newAuroraField :: AuroraField where
  "newAuroraField =
     \<lparr>af_particles = [], af_lastTime = None, af_destroyed = False, af_particleId = 0,
      af_randomCalls = 0\<rparr>"

text \<open>The body of the loop of \<^verbatim>\<open>spawnBurst\<close>: eight random numbers, one particle pushed.\<close>

definition pushParticle ::
  "(nat \<Rightarrow> real) \<Rightarrow> VariantConfig \<Rightarrow> real \<Rightarrow> real \<Rightarrow> nat \<times> nat \<times> nat \<Rightarrow> AuroraField
    \<Rightarrow> AuroraField" where
  "pushParticle rnd config x y rgb fld =
     (let c = af_randomCalls fld;
          angle = rnd c * pi * 2;
          speed = randomInRange (rnd (c + 1)) (vc_minSpeed config) (vc_maxSpeed config);
          ttl = randomInRange (rnd (c + 2)) (fst (vc_ttl config)) (snd (vc_ttl config));
          size = randomInRange (rnd (c + 3)) (fst (vc_size config)) (snd (vc_size config));
          growth = randomInRange (rnd (c + 4)) (fst (vc_growth config))
                     (snd (vc_growth config));
          alpha = randomInRange (rnd (c + 5)) (fst (vc_alpha config)) (snd (vc_alpha config));
          glow = randomInRange (rnd (c + 6)) (fst (vc_glow config)) (snd (vc_glow config));
          spin = randomInRange (rnd (c + 7)) (fst (vc_spin config)) (snd (vc_spin config))
      in fld\<lparr>af_particles := af_particles fld @
                [\<lparr>ap_id = af_particleId fld, ap_x = x, ap_y = y,
                  ap_vx = cos angle * speed, ap_vy = sin angle * speed,
                  ap_life = ttl, ap_ttl = ttl, ap_size = size, ap_growth = growth,
                  ap_r = fst rgb, ap_g = fst (snd rgb), ap_b = snd (snd rgb),
                  ap_alpha = alpha, ap_glow = glow, ap_spin = spin\<rparr>],
              af_particleId := af_particleId fld + 1,
              af_randomCalls := c + 8\<rparr>)"

fun spawnLoop ::
  "(nat \<Rightarrow> real) \<Rightarrow> VariantConfig \<Rightarrow> real \<Rightarrow> real \<Rightarrow> nat \<times> nat \<times> nat \<Rightarrow> nat \<Rightarrow> AuroraField
    \<Rightarrow> AuroraField" where
  "spawnLoop rnd config x y rgb 0 fld = fld"
| "spawnLoop rnd config x y rgb (Suc n) fld =
     spawnLoop rnd config x y rgb n (pushParticle rnd config x y rgb fld)"

definition spawnBurst ::
  "(nat \<Rightarrow> real) \<Rightarrow> real \<Rightarrow> real \<Rightarrow> string \<Rightarrow> AuroraVariant \<Rightarrow> AuroraField \<Rightarrow> AuroraField" where
  "spawnBurst rnd x y color variant fld =
     (if af_destroyed fld then fld
      else
        let config = VARIANT_CONFIG variant;
            rgb = hexToRgb color;
            fld1 = spawnLoop rnd config x y rgb (vc_count config) fld
        in if length (af_particles fld1) > 1600
           then fld1\<lparr>af_particles :=
                  drop (length (af_particles fld1) - 1600) (af_particles fld1)\<rparr>
           else fld1)"

definition getVariantForParticle :: "AuroraParticle \<Rightarrow> AuroraVariant" where
  "getVariantForParticle particle =
     (if ap_ttl particle > 1.4 then pad_v
      else if ap_ttl particle < 0.6 \<and> ap_growth particle > 32 then chime_v
      else if ap_spin particle > 2 \<or> ap_spin particle < - 2 then shimmer_v
      else lead_v)"

text \<open>The callback of the \<^verbatim>\<open>map\<close> in \<^verbatim>\<open>update\<close>; it reads two random numbers.\<close>

definition updateParticle :: "(nat \<Rightarrow> real) \<Rightarrow> real \<Rightarrow> nat \<Rightarrow> AuroraParticle \<Rightarrow> AuroraParticle" where
  "updateParticle rnd delta c particle =
     (let gravity = 22;
          config = VARIANT_CONFIG (getVariantForParticle particle);
          life = ap_life particle - delta;
          turbulence = vc_turbulence config * delta;
          vx = (ap_vx particle + (rnd c - 0.5) * turbulence) * vc_drag config;
          vy = (ap_vy particle + (rnd (c + 1) - 0.5) * turbulence + gravity * delta)
                 * vc_drag config
      in particle\<lparr>ap_life := life, ap_vx := vx, ap_vy := vy,
                   ap_size := ap_size particle + ap_growth particle * delta,
                   ap_spin := ap_spin particle * (1 - delta * 0.2)\<rparr>)"

fun updateParticles ::
  "(nat \<Rightarrow> real) \<Rightarrow> real \<Rightarrow> nat \<Rightarrow> AuroraParticle list \<Rightarrow> AuroraParticle list \<times> nat" where
  "updateParticles rnd delta c [] = ([], c)"
| "updateParticles rnd delta c (particle # rest) =
     (case updateParticles rnd delta (c + 2) rest of
        (rest', c') \<Rightarrow> (updateParticle rnd delta c particle # rest', c'))"

definition update :: "(nat \<Rightarrow> real) \<Rightarrow> real \<Rightarrow> AuroraField \<Rightarrow> AuroraField" where
  "update rnd delta fld =
     (case updateParticles rnd delta (af_randomCalls fld) (af_particles fld) of
        (mapped, c') \<Rightarrow>
          fld\<lparr>af_particles := filter (\<lambda>particle. ap_life particle > 0) mapped,
              af_randomCalls := c'\<rparr>)"

text \<open>One turn of the loop started by \<^verbatim>\<open>start\<close>, called with the time of the frame.\<close>

definition loop :: "(nat \<Rightarrow> real) \<Rightarrow> real \<Rightarrow> AuroraField \<Rightarrow> AuroraField" where
  "loop rnd time fld =
     (if af_destroyed fld then fld
      else
        let lastTime = (case af_lastTime fld of None \<Rightarrow> time | Some t \<Rightarrow> t);
            delta = min ((time - lastTime) / 1000) 0.045
        in update rnd delta (fld\<lparr>af_lastTime := Some time\<rparr>))"

definition destroyAurora :: "AuroraField \<Rightarrow> AuroraField" where
  "destroyAurora fld = fld\<lparr>af_destroyed := True, af_particles := []\<rparr>"

datatype AuroraOp =
    SpawnBurst real real string AuroraVariant
  | LoopFrame real
  | DestroyAurora

fun auroraOp :: "(nat \<Rightarrow> real) \<Rightarrow> AuroraOp \<Rightarrow> AuroraField \<Rightarrow> AuroraField" where
  "auroraOp rnd (SpawnBurst x y color variant) fld = spawnBurst rnd x y color variant fld"
| "auroraOp rnd (LoopFrame time) fld = loop rnd time fld"
| "auroraOp rnd DestroyAurora fld = destroyAurora fld"

definition runAurora :: "(nat \<Rightarrow> real) \<Rightarrow> AuroraOp list \<Rightarrow> AuroraField \<Rightarrow> AuroraField" where
  "runAurora rnd ops fld = fold (auroraOp rnd) ops fld"

subsection \<open>Inline particles of the first application\<close>

text \<open>
  The earliest \<^verbatim>\<open>App\<close> keeps its particles in a ref and renders them as elements. Its
  \<^verbatim>\<open>hexToRgb\<close> is the one above. Only the particle system is modelled: the operations are
  \<^verbatim>\<open>spawnParticles\<close>, called by the pointer handlers, and the \<^verbatim>\<open>tick\<close> of the frame loop.
\<close>

record Particle =
  p_id :: nat
  p_x :: real
  p_y :: real
  p_vx :: real
  p_vy :: real
  p_life :: real
  p_ttl :: real
  p_size :: real
  p_r :: nat
  p_g :: nat
  p_b :: nat
  p_alpha :: real

record ParticleState =
  ps_particles :: "Particle list"
  ps_particleId :: nat
  ps_lastTime :: "real option"
  ps_randomCalls :: nat

definition newParticleState :: ParticleState where
  "newParticleState =
     \<lparr>ps_particles = [], ps_particleId = 0, ps_lastTime = None, ps_randomCalls = 0\<rparr>"

text \<open>The callback of \<^verbatim>\<open>Array.from({ length: 6 }, ...)\<close>: five random numbers, one particle.\<close>

definition makeParticle ::
  "(nat \<Rightarrow> real) \<Rightarrow> real \<Rightarrow> real \<Rightarrow> nat \<times> nat \<times> nat \<Rightarrow> nat \<Rightarrow> nat \<Rightarrow> Particle" where
  "makeParticle rnd x y rgb c ident =
     (let angle = rnd c * pi * 2;
          speed = 40 + rnd (c + 1) * 120;
          ttl = 0.6 + rnd (c + 2) * 0.4
      in \<lparr>p_id = ident, p_x = x, p_y = y, p_vx = cos angle * speed, p_vy = sin angle * speed,
          p_life = ttl, p_ttl = ttl, p_size = 24 + rnd (c + 3) * 16,
          p_r = fst rgb, p_g = fst (snd rgb), p_b = snd (snd rgb),
          p_alpha = 0.55 + rnd (c + 4) * 0.35\<rparr>)"

definition spawnParticles ::
  "(nat \<Rightarrow> real) \<Rightarrow> real \<Rightarrow> real \<Rightarrow> string \<Rightarrow> ParticleState \<Rightarrow> ParticleState" where
  "spawnParticles rnd x y color st =
     (let rgb = hexToRgb color;
          particlesToAdd =
            map (\<lambda>i. makeParticle rnd x y rgb (ps_randomCalls st + 5 * i) (ps_particleId st + i))
              [0..<6];
          combined = ps_particles st @ particlesToAdd;
          st1 = st\<lparr>ps_particles := combined, ps_particleId := ps_particleId st + 6,
                   ps_randomCalls := ps_randomCalls st + 30\<rparr>
      in if length combined > 240
         then st1\<lparr>ps_particles := drop (length combined - 240) combined\<rparr>
         else st1)"

definition tick :: "real \<Rightarrow> ParticleState \<Rightarrow> ParticleState" where
  "tick time st =
     (let lastTime = (case ps_lastTime st of None \<Rightarrow> time | Some t \<Rightarrow> t);
          delta = (time - lastTime) / 1000;
          st1 = st\<lparr>ps_lastTime := Some time\<rparr>
      in if length (ps_particles st1) > 0
         then st1\<lparr>ps_particles :=
                filter (\<lambda>particle. p_life particle > 0)
                  (map (\<lambda>particle. particle\<lparr>p_life := p_life particle - delta,
                                       p_x := p_x particle + p_vx particle * delta,
                                       p_y := p_y particle + p_vy particle * delta\<rparr>)
                     (ps_particles st1))\<rparr>
         else st1)"

datatype ParticleOp =
    SpawnParticles real real string
  | Tick real

fun particleOp :: "(nat \<Rightarrow> real) \<Rightarrow> ParticleOp \<Rightarrow> ParticleState \<Rightarrow> ParticleState" where
  "particleOp rnd (SpawnParticles x y color) st = spawnParticles rnd x y color st"
| "particleOp rnd (Tick time) st = tick time st"

definition runParticles ::
  "(nat \<Rightarrow> real) \<Rightarrow> ParticleOp list \<Rightarrow> ParticleState \<Rightarrow> ParticleState" where
  "runParticles rnd ops st = fold (particleOp rnd) ops st"

subsection \<open>Instrument grid of the grid application\<close>

text \<open>
  The palette of the grid application: 25 instrument definitions in five rows, of which
  the cells marked in \<open>PERCUSSIVE_PATTERN\<close> get a generated percussive instrument.
  Optional fields of the interfaces are options. The variant passed to
  \<^verbatim>\<open>createPercussiveInstrument\<close> is the running cell id, a natural number.
  \<^verbatim>\<open>hexToRgb\<close> of the colour utilities throws on a string that is not six hexadecimal
  digits after an optional \<^verbatim>\<open>#\<close>; the model returns \<open>None\<close> there, and so does the
  construction of the grid, which runs when the module is loaded.
\<close>

datatype BiquadFilterType =
  lowpass | highpass | bandpass | lowshelf | highshelf | peaking | notch | allpass

record TapConfig =
  tap_waveform :: OscillatorType
  tap_octaveOffset :: real
  tap_detune :: "real option"
  tap_attack :: real
  tap_decay :: real
  tap_sustain :: real
  tap_release :: real
  tap_gain :: real
  tap_filterFrequency :: real
  tap_filterQ :: real

record FilterSettings =
  fl_type :: BiquadFilterType
  fl_frequency :: real
  fl_Q :: real
  fl_gain :: "real option"

record VibratoSettings =
  vb_rate :: real
  vb_depth :: real

record InstrumentDefinition =
  ins_id :: string
  ins_waveform :: OscillatorType
  ins_detune :: "real option"
  ins_attack :: real
  ins_sustain :: real
  ins_release :: real
  ins_filter :: FilterSettings
  ins_vibrato :: "VibratoSettings option"
  ins_tap :: TapConfig

record GridSpecEntry =
  gs_hex :: string
  gs_label :: string
  gs_instrument :: InstrumentDefinition

record GridCell =
  gc_id :: nat
  gc_label :: string
  gc_hex :: string
  gc_color :: RGBColor
  gc_frequency :: real
  gc_instrument :: InstrumentDefinition

definition GRID_ROWS :: nat where
  "GRID_ROWS = 5"

definition GRID_COLUMNS :: nat where
  "GRID_COLUMNS = 5"

definition ROW_BASES :: "real list" where
  "ROW_BASES = [554.37, 466.16, 369.99, 293.66, 220.0]"

definition COLUMN_RATIOS :: "real list" where
  "COLUMN_RATIOS = [1, 1.1225, 1.26, 1.498, 1.682]"

definition GRID_SPEC :: "GridSpecEntry list list" where
  "GRID_SPEC =
      [[\<lparr>gs_hex = ''#ff2f92'', gs_label = ''Nova'',
         gs_instrument =
          \<lparr>ins_id = ''nova'', ins_waveform = sawtooth, ins_detune = Some 6, ins_attack = 0.05,
           ins_sustain = 0.62, ins_release = 0.48,
           ins_filter = \<lparr>fl_type = lowpass, fl_frequency = 5200, fl_Q = 0.9, fl_gain = None\<rparr>,
           ins_vibrato = Some \<lparr>vb_rate = 5.2, vb_depth = 7\<rparr>,
           ins_tap =
            \<lparr>tap_waveform = sawtooth, tap_octaveOffset = 1, tap_detune = Some 14,
             tap_attack = 0.01, tap_decay = 0.2, tap_sustain = 0.28, tap_release = 0.32,
             tap_gain = 0.38, tap_filterFrequency = 6200, tap_filterQ = 1.2\<rparr>\<rparr>\<rparr>,
        \<lparr>gs_hex = ''#ff6b4a'', gs_label = ''Flare'',
         gs_instrument =
          \<lparr>ins_id = ''flare'', ins_waveform = square, ins_detune = Some (- 4), ins_attack = 0.03,
           ins_sustain = 0.55, ins_release = 0.42,
           ins_filter = \<lparr>fl_type = bandpass, fl_frequency = 3400, fl_Q = 9.5, fl_gain = None\<rparr>,
           ins_vibrato = Some \<lparr>vb_rate = 7.6, vb_depth = 11\<rparr>,
           ins_tap =
            \<lparr>tap_waveform = square, tap_octaveOffset = 0, tap_detune = Some (- 12),
             tap_attack = 0.006, tap_decay = 0.16, tap_sustain = 0.22, tap_release = 0.28,
             tap_gain = 0.36, tap_filterFrequency = 2600, tap_filterQ = 5\<rparr>\<rparr>\<rparr>,
        \<lparr>gs_hex = ''#ffd23f'', gs_label = ''Solar'',
         gs_instrument =
          \<lparr>ins_id = ''solar'', ins_waveform = triangle, ins_detune = Some 8, ins_attack = 0.06,
           ins_sustain = 0.58, ins_release = 0.5,
           ins_filter = \<lparr>fl_type = lowpass, fl_frequency = 7800, fl_Q = 0.7, fl_gain = None\<rparr>,
           ins_vibrato = Some \<lparr>vb_rate = 3.8, vb_depth = 5\<rparr>,
           ins_tap =
            \<lparr>tap_waveform = triangle, tap_octaveOffset = 1, tap_detune = None,
             tap_attack = 0.012, tap_decay = 0.22, tap_sustain = 0.32, tap_release = 0.34,
             tap_gain = 0.32, tap_filterFrequency = 6400, tap_filterQ = 1.4\<rparr>\<rparr>\<rparr>,
        \<lparr>gs_hex = ''#7dff5c'', gs_label = ''Verdant'',
         gs_instrument =
          \<lparr>ins_id = ''verdant'', ins_waveform = sine, ins_detune = Some 2, ins_attack = 0.08,
           ins_sustain = 0.64, ins_release = 0.62,
           ins_filter = \<lparr>fl_type = lowpass, fl_frequency = 6200, fl_Q = 0.8, fl_gain = None\<rparr>,
           ins_vibrato = Some \<lparr>vb_rate = 4.4, vb_depth = 6\<rparr>,
           ins_tap =
            \<lparr>tap_waveform = sine, tap_octaveOffset = 1, tap_detune = Some 7,
             tap_attack = 0.015, tap_decay = 0.24, tap_sustain = 0.35, tap_release = 0.4,
             tap_gain = 0.28, tap_filterFrequency = 5400, tap_filterQ = 1\<rparr>\<rparr>\<rparr>,
        \<lparr>gs_hex = ''#32ffe0'', gs_label = ''Lagoon'',
         gs_instrument =
          \<lparr>ins_id = ''lagoon'', ins_waveform = sawtooth, ins_detune = Some (- 9), ins_attack = 0.04,
           ins_sustain = 0.6, ins_release = 0.5,
           ins_filter = \<lparr>fl_type = lowpass, fl_frequency = 6800, fl_Q = 0.9, fl_gain = None\<rparr>,
           ins_vibrato = Some \<lparr>vb_rate = 6.5, vb_depth = 8\<rparr>,
           ins_tap =
            \<lparr>tap_waveform = sawtooth, tap_octaveOffset = 1, tap_detune = None,
             tap_attack = 0.01, tap_decay = 0.18, tap_sustain = 0.26, tap_release = 0.36,
             tap_gain = 0.35, tap_filterFrequency = 6000, tap_filterQ = 2\<rparr>\<rparr>\<rparr>],
       [\<lparr>gs_hex = ''#b967ff'', gs_label = ''Lumen'',
         gs_instrument =
          \<lparr>ins_id = ''lumen'', ins_waveform = triangle, ins_detune = Some 4, ins_attack = 0.07,
           ins_sustain = 0.56, ins_release = 0.58,
           ins_filter = \<lparr>fl_type = lowpass, fl_frequency = 7400, fl_Q = 0.6, fl_gain = None\<rparr>,
           ins_vibrato = Some \<lparr>vb_rate = 3.6, vb_depth = 4.5\<rparr>,
           ins_tap =
            \<lparr>tap_waveform = triangle, tap_octaveOffset = 1, tap_detune = None,
             tap_attack = 0.014, tap_decay = 0.26, tap_sustain = 0.3, tap_release = 0.36,
             tap_gain = 0.3, tap_filterFrequency = 5800, tap_filterQ = 1.3\<rparr>\<rparr>\<rparr>,
        \<lparr>gs_hex = ''#ff5dac'', gs_label = ''Bloom'',
         gs_instrument =
          \<lparr>ins_id = ''bloom'', ins_waveform = sawtooth, ins_detune = Some 10, ins_attack = 0.05,
           ins_sustain = 0.65, ins_release = 0.54,
           ins_filter = \<lparr>fl_type = lowpass, fl_frequency = 5400, fl_Q = 1.1, fl_gain = None\<rparr>,
           ins_vibrato = Some \<lparr>vb_rate = 5.8, vb_depth = 9\<rparr>,
           ins_tap =
            \<lparr>tap_waveform = sawtooth, tap_octaveOffset = 0, tap_detune = Some 12,
             tap_attack = 0.008, tap_decay = 0.18, tap_sustain = 0.24, tap_release = 0.34,
             tap_gain = 0.38, tap_filterFrequency = 4200, tap_filterQ = 2.2\<rparr>\<rparr>\<rparr>,
        \<lparr>gs_hex = ''#ff9f1c'', gs_label = ''Spark'',
         gs_instrument =
          \<lparr>ins_id = ''spark'', ins_waveform = square, ins_detune = Some (- 6), ins_attack = 0.04,
           ins_sustain = 0.58, ins_release = 0.46,
           ins_filter = \<lparr>fl_type = bandpass, fl_frequency = 2800, fl_Q = 7.5, fl_gain = None\<rparr>,
           ins_vibrato = Some \<lparr>vb_rate = 7.1, vb_depth = 12\<rparr>,
           ins_tap =
            \<lparr>tap_waveform = square, tap_octaveOffset = 0, tap_detune = Some (- 7),
             tap_attack = 0.006, tap_decay = 0.16, tap_sustain = 0.2, tap_release = 0.28,
             tap_gain = 0.34, tap_filterFrequency = 2300, tap_filterQ = 6\<rparr>\<rparr>\<rparr>,
        \<lparr>gs_hex = ''#5dffb5'', gs_label = ''Mist'',
         gs_instrument =
          \<lparr>ins_id = ''mist'', ins_waveform = sine, ins_detune = Some 3, ins_attack = 0.09,
           ins_sustain = 0.68, ins_release = 0.62,
           ins_filter = \<lparr>fl_type = lowpass, fl_frequency = 6000, fl_Q = 0.9, fl_gain = None\<rparr>,
           ins_vibrato = Some \<lparr>vb_rate = 4.8, vb_depth = 5.5\<rparr>,
           ins_tap =
            \<lparr>tap_waveform = sine, tap_octaveOffset = 1, tap_detune = Some 5,
             tap_attack = 0.016, tap_decay = 0.24, tap_sustain = 0.28, tap_release = 0.4,
             tap_gain = 0.27, tap_filterFrequency = 5200, tap_filterQ = 1.2\<rparr>\<rparr>\<rparr>,
        \<lparr>gs_hex = ''#34d2ff'', gs_label = ''Azure'',
         gs_instrument =
          \<lparr>ins_id = ''azure'', ins_waveform = triangle, ins_detune = Some (- 8), ins_attack = 0.06,
           ins_sustain = 0.6, ins_release = 0.56,
           ins_filter = \<lparr>fl_type = lowpass, fl_frequency = 7000, fl_Q = 0.7, fl_gain = None\<rparr>,
           ins_vibrato = Some \<lparr>vb_rate = 6.1, vb_depth = 6.5\<rparr>,
           ins_tap =
            \<lparr>tap_waveform = triangle, tap_octaveOffset = 1, tap_detune = None,
             tap_attack = 0.012, tap_decay = 0.22, tap_sustain = 0.32, tap_release = 0.34,
             tap_gain = 0.31, tap_filterFrequency = 5800, tap_filterQ = 1.5\<rparr>\<rparr>\<rparr>],
       [\<lparr>gs_hex = ''#ff3b30'', gs_label = ''Crimson'',
         gs_instrument =
          \<lparr>ins_id = ''crimson'', ins_waveform = sawtooth, ins_detune = Some 5, ins_attack = 0.05,
           ins_sustain = 0.64, ins_release = 0.52,
           ins_filter = \<lparr>fl_type = lowpass, fl_frequency = 4200, fl_Q = 1.3, fl_gain = None\<rparr>,
           ins_vibrato = Some \<lparr>vb_rate = 5.9, vb_depth = 10\<rparr>,
           ins_tap =
            \<lparr>tap_waveform = sawtooth, tap_octaveOffset = 0, tap_detune = Some 9,
             tap_attack = 0.008, tap_decay = 0.18, tap_sustain = 0.22, tap_release = 0.3,
             tap_gain = 0.36, tap_filterFrequency = 3800, tap_filterQ = 2.4\<rparr>\<rparr>\<rparr>,
        \<lparr>gs_hex = ''#ff6f61'', gs_label = ''Glow'',
         gs_instrument =
          \<lparr>ins_id = ''glow'', ins_waveform = triangle, ins_detune = Some (- 5), ins_attack = 0.07,
           ins_sustain = 0.6, ins_release = 0.56,
           ins_filter = \<lparr>fl_type = lowpass, fl_frequency = 5600, fl_Q = 0.9, fl_gain = None\<rparr>,
           ins_vibrato = Some \<lparr>vb_rate = 4.9, vb_depth = 6\<rparr>,
           ins_tap =
            \<lparr>tap_waveform = triangle, tap_octaveOffset = 1, tap_detune = None,
             tap_attack = 0.013, tap_decay = 0.24, tap_sustain = 0.28, tap_release = 0.36,
             tap_gain = 0.3, tap_filterFrequency = 5000, tap_filterQ = 1.4\<rparr>\<rparr>\<rparr>,
        \<lparr>gs_hex = ''#ffcf70'', gs_label = ''Honey'',
         gs_instrument =
          \<lparr>ins_id = ''honey'', ins_waveform = sine, ins_detune = Some 1, ins_attack = 0.08,
           ins_sustain = 0.66, ins_release = 0.64,
           ins_filter = \<lparr>fl_type = lowpass, fl_frequency = 6400, fl_Q = 0.8, fl_gain = None\<rparr>,
           ins_vibrato = Some \<lparr>vb_rate = 3.9, vb_depth = 5\<rparr>,
           ins_tap =
            \<lparr>tap_waveform = sine, tap_octaveOffset = 1, tap_detune = None,
             tap_attack = 0.015, tap_decay = 0.28, tap_sustain = 0.32, tap_release = 0.42,
             tap_gain = 0.26, tap_filterFrequency = 5200, tap_filterQ = 1.1\<rparr>\<rparr>\<rparr>,
        \<lparr>gs_hex = ''#4ad0ff'', gs_label = ''Stream'',
         gs_instrument =
          \<lparr>ins_id = ''stream'', ins_waveform = sawtooth, ins_detune = Some (- 10), ins_attack = 0.04,
           ins_sustain = 0.58, ins_release = 0.5,
           ins_filter = \<lparr>fl_type = lowpass, fl_frequency = 6400, fl_Q = 0.7, fl_gain = None\<rparr>,
           ins_vibrato = Some \<lparr>vb_rate = 6.8, vb_depth = 7\<rparr>,
           ins_tap =
            \<lparr>tap_waveform = sawtooth, tap_octaveOffset = 1, tap_detune = None,
             tap_attack = 0.009, tap_decay = 0.2, tap_sustain = 0.26, tap_release = 0.34,
             tap_gain = 0.34, tap_filterFrequency = 5200, tap_filterQ = 1.8\<rparr>\<rparr>\<rparr>,
        \<lparr>gs_hex = ''#2b6bff'', gs_label = ''Tide'',
         gs_instrument =
          \<lparr>ins_id = ''tide'', ins_waveform = triangle, ins_detune = Some 3, ins_attack = 0.06,
           ins_sustain = 0.6, ins_release = 0.55,
           ins_filter = \<lparr>fl_type = lowpass, fl_frequency = 6800, fl_Q = 0.6, fl_gain = None\<rparr>,
           ins_vibrato = Some \<lparr>vb_rate = 5.6, vb_depth = 6.8\<rparr>,
           ins_tap =
            \<lparr>tap_waveform = triangle, tap_octaveOffset = 1, tap_detune = None,
             tap_attack = 0.012, tap_decay = 0.24, tap_sustain = 0.3, tap_release = 0.36,
             tap_gain = 0.3, tap_filterFrequency = 5600, tap_filterQ = 1.3\<rparr>\<rparr>\<rparr>],
       [\<lparr>gs_hex = ''#5a3bff'', gs_label = ''Pulse'',
         gs_instrument =
          \<lparr>ins_id = ''pulse'', ins_waveform = square, ins_detune = Some (- 3), ins_attack = 0.05,
           ins_sustain = 0.5, ins_release = 0.44,
           ins_filter = \<lparr>fl_type = bandpass, fl_frequency = 2200, fl_Q = 8.2, fl_gain = None\<rparr>,
           ins_vibrato = Some \<lparr>vb_rate = 7.8, vb_depth = 10\<rparr>,
           ins_tap =
            \<lparr>tap_waveform = square, tap_octaveOffset = 0, tap_detune = Some (- 9),
             tap_attack = 0.007, tap_decay = 0.16, tap_sustain = 0.18, tap_release = 0.26,
             tap_gain = 0.32, tap_filterFrequency = 2000, tap_filterQ = 6.2\<rparr>\<rparr>\<rparr>,
        \<lparr>gs_hex = ''#8a46ff'', gs_label = ''Prism'',
         gs_instrument =
          \<lparr>ins_id = ''prism'', ins_waveform = sawtooth, ins_detune = Some 12, ins_attack = 0.05,
           ins_sustain = 0.58, ins_release = 0.5,
           ins_filter = \<lparr>fl_type = lowpass, fl_frequency = 4800, fl_Q = 1.2, fl_gain = None\<rparr>,
           ins_vibrato = Some \<lparr>vb_rate = 5.4, vb_depth = 8.5\<rparr>,
           ins_tap =
            \<lparr>tap_waveform = sawtooth, tap_octaveOffset = 1, tap_detune = None,
             tap_attack = 0.01, tap_decay = 0.2, tap_sustain = 0.24, tap_release = 0.34,
             tap_gain = 0.34, tap_filterFrequency = 4600, tap_filterQ = 2\<rparr>\<rparr>\<rparr>,
        \<lparr>gs_hex = ''#ff61f7'', gs_label = ''Fable'',
         gs_instrument =
          \<lparr>ins_id = ''fable'', ins_waveform = triangle, ins_detune = Some 6, ins_attack = 0.07,
           ins_sustain = 0.62, ins_release = 0.58,
           ins_filter = \<lparr>fl_type = lowpass, fl_frequency = 5200, fl_Q = 0.9, fl_gain = None\<rparr>,
           ins_vibrato = Some \<lparr>vb_rate = 4.3, vb_depth = 6\<rparr>,
           ins_tap =
            \<lparr>tap_waveform = triangle, tap_octaveOffset = 1, tap_detune = None,
             tap_attack = 0.014, tap_decay = 0.24, tap_sustain = 0.28, tap_release = 0.38,
             tap_gain = 0.3, tap_filterFrequency = 4800, tap_filterQ = 1.4\<rparr>\<rparr>\<rparr>,
        \<lparr>gs_hex = ''#ff4b8c'', gs_label = ''Blaze'',
         gs_instrument =
          \<lparr>ins_id = ''blaze'', ins_waveform = sawtooth, ins_detune = Some (- 8), ins_attack = 0.04,
           ins_sustain = 0.57, ins_release = 0.5,
           ins_filter = \<lparr>fl_type = lowpass, fl_frequency = 5600, fl_Q = 1, fl_gain = None\<rparr>,
           ins_vibrato = Some \<lparr>vb_rate = 6.4, vb_depth = 9\<rparr>,
           ins_tap =
            \<lparr>tap_waveform = sawtooth, tap_octaveOffset = 0, tap_detune = Some 10,
             tap_attack = 0.009, tap_decay = 0.18, tap_sustain = 0.22, tap_release = 0.32,
             tap_gain = 0.35, tap_filterFrequency = 4200, tap_filterQ = 2.1\<rparr>\<rparr>\<rparr>,
        \<lparr>gs_hex = ''#ffa24c'', gs_label = ''Glowr'',
         gs_instrument =
          \<lparr>ins_id = ''glowr'', ins_waveform = triangle, ins_detune = Some 2, ins_attack = 0.06,
           ins_sustain = 0.59, ins_release = 0.52,
           ins_filter = \<lparr>fl_type = lowpass, fl_frequency = 6000, fl_Q = 0.8, fl_gain = None\<rparr>,
           ins_vibrato = Some \<lparr>vb_rate = 5.1, vb_depth = 6.2\<rparr>,
           ins_tap =
            \<lparr>tap_waveform = triangle, tap_octaveOffset = 1, tap_detune = None,
             tap_attack = 0.012, tap_decay = 0.22, tap_sustain = 0.3, tap_release = 0.34,
             tap_gain = 0.31, tap_filterFrequency = 5000, tap_filterQ = 1.5\<rparr>\<rparr>\<rparr>],
       [\<lparr>gs_hex = ''#1f77ff'', gs_label = ''Skye'',
         gs_instrument =
          \<lparr>ins_id = ''skye'', ins_waveform = sine, ins_detune = Some (- 2), ins_attack = 0.09,
           ins_sustain = 0.64, ins_release = 0.62,
           ins_filter = \<lparr>fl_type = lowpass, fl_frequency = 5600, fl_Q = 0.7, fl_gain = None\<rparr>,
           ins_vibrato = Some \<lparr>vb_rate = 3.8, vb_depth = 4.2\<rparr>,
           ins_tap =
            \<lparr>tap_waveform = sine, tap_octaveOffset = 1, tap_detune = None,
             tap_attack = 0.016, tap_decay = 0.28, tap_sustain = 0.32, tap_release = 0.42,
             tap_gain = 0.26, tap_filterFrequency = 4800, tap_filterQ = 1.1\<rparr>\<rparr>\<rparr>,
        \<lparr>gs_hex = ''#15c6ff'', gs_label = ''Glacier'',
         gs_instrument =
          \<lparr>ins_id = ''glacier'', ins_waveform = triangle, ins_detune = Some 5, ins_attack = 0.07,
           ins_sustain = 0.6, ins_release = 0.56,
           ins_filter = \<lparr>fl_type = lowpass, fl_frequency = 6000, fl_Q = 0.8, fl_gain = None\<rparr>,
           ins_vibrato = Some \<lparr>vb_rate = 4.6, vb_depth = 5.4\<rparr>,
           ins_tap =
            \<lparr>tap_waveform = triangle, tap_octaveOffset = 1, tap_detune = None,
             tap_attack = 0.014, tap_decay = 0.26, tap_sustain = 0.3, tap_release = 0.38,
             tap_gain = 0.29, tap_filterFrequency = 5200, tap_filterQ = 1.3\<rparr>\<rparr>\<rparr>,
        \<lparr>gs_hex = ''#2dff88'', gs_label = ''Grove'',
         gs_instrument =
          \<lparr>ins_id = ''grove'', ins_waveform = sawtooth, ins_detune = Some (- 6), ins_attack = 0.05,
           ins_sustain = 0.58, ins_release = 0.5,
           ins_filter = \<lparr>fl_type = lowpass, fl_frequency = 5200, fl_Q = 0.9, fl_gain = None\<rparr>,
           ins_vibrato = Some \<lparr>vb_rate = 6.2, vb_depth = 7.5\<rparr>,
           ins_tap =
            \<lparr>tap_waveform = sawtooth, tap_octaveOffset = 0, tap_detune = Some 11,
             tap_attack = 0.009, tap_decay = 0.2, tap_sustain = 0.24, tap_release = 0.34,
             tap_gain = 0.34, tap_filterFrequency = 4400, tap_filterQ = 2\<rparr>\<rparr>\<rparr>,
        \<lparr>gs_hex = ''#aaff2c'', gs_label = ''Lush'',
         gs_instrument =
          \<lparr>ins_id = ''lush'', ins_waveform = triangle, ins_detune = Some 4, ins_attack = 0.08,
           ins_sustain = 0.64, ins_release = 0.58,
           ins_filter = \<lparr>fl_type = lowpass, fl_frequency = 5800, fl_Q = 0.85, fl_gain = None\<rparr>,
           ins_vibrato = Some \<lparr>vb_rate = 4.2, vb_depth = 5.8\<rparr>,
           ins_tap =
            \<lparr>tap_waveform = triangle, tap_octaveOffset = 1, tap_detune = None,
             tap_attack = 0.014, tap_decay = 0.26, tap_sustain = 0.32, tap_release = 0.38,
             tap_gain = 0.3, tap_filterFrequency = 5200, tap_filterQ = 1.2\<rparr>\<rparr>\<rparr>,
        \<lparr>gs_hex = ''#ffd1ff'', gs_label = ''Glowm'',
         gs_instrument =
          \<lparr>ins_id = ''glowm'', ins_waveform = sine, ins_detune = Some (- 4), ins_attack = 0.1,
           ins_sustain = 0.66, ins_release = 0.64,
           ins_filter = \<lparr>fl_type = lowpass, fl_frequency = 5400, fl_Q = 0.7, fl_gain = None\<rparr>,
           ins_vibrato = Some \<lparr>vb_rate = 3.6, vb_depth = 4.5\<rparr>,
           ins_tap =
            \<lparr>tap_waveform = sine, tap_octaveOffset = 1, tap_detune = None,
             tap_attack = 0.016, tap_decay = 0.3, tap_sustain = 0.34, tap_release = 0.44,
             tap_gain = 0.24, tap_filterFrequency = 4600, tap_filterQ = 1\<rparr>\<rparr>\<rparr>]]"

definition PERCUSSIVE_PATTERN :: "bool list list" where
  "PERCUSSIVE_PATTERN =
     [[True, False, True, False, True],
      [False, True, False, True, False],
      [True, False, True, False, True],
      [False, True, False, True, False],
      [True, False, True, False, True]]"

definition createPercussiveInstrument :: "string \<Rightarrow> real \<Rightarrow> nat \<Rightarrow> InstrumentDefinition" where
  "createPercussiveInstrument baseId baseFrequency variant =
     (let waveforms = [square, sawtooth, triangle, square, sine];
          waveform = waveforms ! (variant mod length waveforms);
          detune = real (variant mod 5) * 2 - 4;
          filterFrequency = clamp (baseFrequency * 1.7 + real variant * 35) 350 5200;
          filterQ = 5 + real (variant mod 4) * 1.1;
          tapFilter = clamp (filterFrequency * 1.1) 500 5600
      in \<lparr>ins_id = ''percussive-'' @ baseId, ins_waveform = waveform,
          ins_detune = Some detune, ins_attack = 0.008, ins_sustain = 0.18,
          ins_release = 0.16,
          ins_filter = \<lparr>fl_type = bandpass, fl_frequency = filterFrequency, fl_Q = filterQ,
                         fl_gain = None\<rparr>,
          ins_vibrato = None,
          ins_tap = \<lparr>tap_waveform = waveform, tap_octaveOffset = 0,
                      tap_detune = Some (detune * 1.5), tap_attack = 0.003, tap_decay = 0.12,
                      tap_sustain = 0.1, tap_release = 0.14,
                      tap_gain = 0.38 + real (variant mod 3) * 0.03,
                      tap_filterFrequency = tapFilter, tap_filterQ = filterQ + 1.5\<rparr>\<rparr>)"

text \<open>The decimal digits of a cell id, as the template literal writes them.\<close>

function showNat :: "nat \<Rightarrow> string" where
  "showNat n =
     (if n < 10 then [''0123456789'' ! n]
      else showNat (n div 10) @ [''0123456789'' ! (n mod 10)])"
  by pat_completeness auto
termination
  by (relation "measure id") auto

declare showNat.simps [simp del]

text \<open>\<^verbatim>\<open>hexToRgb\<close> of the colour utilities; \<open>None\<close> is its exception.\<close>

definition hexByte :: "string \<Rightarrow> real" where
  "hexByte digits = real (case parseHexDigits None digits of None \<Rightarrow> 0 | Some n \<Rightarrow> n)"

definition hexToRgbStrict :: "string \<Rightarrow> RGBColor option" where
  "hexToRgbStrict hex =
     (let v = (case hex of [] \<Rightarrow> [] | c # rest \<Rightarrow> if c = CHR ''#'' then rest else hex)
      in if length v = 6 \<and> list_all (\<lambda>c. hexDigit c \<noteq> None) v
         then Some \<lparr>rgb_r = hexByte (take 2 v), rgb_g = hexByte (take 2 (drop 2 v)),
                    rgb_b = hexByte (take 2 (drop 4 v))\<rparr>
         else None)"

text \<open>
  The body of the inner loop that builds \<open>GRID_CELLS\<close>, for the cell with the running
  number \<open>ident\<close> at \<open>(row, col)\<close>, and the two nested loops around it, which thread the
  cells pushed so far and the running number.
\<close>

definition gridCell :: "nat \<Rightarrow> nat \<Rightarrow> nat \<Rightarrow> GridCell option" where
  "gridCell row col ident =
     (let spec = GRID_SPEC ! row ! col;
          frequency = ROW_BASES ! row * COLUMN_RATIOS ! col;
          instrument =
            (if PERCUSSIVE_PATTERN ! row ! col
             then createPercussiveInstrument
                    (ins_id (gs_instrument spec) @ ''-'' @ showNat ident) frequency ident
             else gs_instrument spec)
      in case hexToRgbStrict (gs_hex spec) of
           None \<Rightarrow> None
         | Some color \<Rightarrow>
             Some \<lparr>gc_id = ident, gc_label = gs_label spec, gc_hex = gs_hex spec,
                   gc_color = color, gc_frequency = frequency, gc_instrument = instrument\<rparr>)"

definition gridStep ::
  "nat \<Rightarrow> nat \<Rightarrow> GridCell list option \<times> nat \<Rightarrow> GridCell list option \<times> nat" where
  "gridStep row col acc =
     (case fst acc of
        None \<Rightarrow> acc
      | Some cells \<Rightarrow>
          (case gridCell row col (snd acc) of
             None \<Rightarrow> (None, snd acc)
           | Some cell \<Rightarrow> (Some (cells @ [cell]), snd acc + 1)))"

definition GRID_CELLS :: "GridCell list option" where
  "GRID_CELLS =
     fst (fold (\<lambda>row acc. fold (\<lambda>col acc'. gridStep row col acc') [0..<GRID_COLUMNS] acc)
            [0..<GRID_ROWS] (Some [], 0))"

section \<open>Properties of the scale mapper\<close>

lemma clamp_mono: "a \<le> b \<Longrightarrow> clamp a lo hi \<le> clamp b lo hi"
  for a :: "'a::linorder"
  by (auto simp: clamp_def min_def max_def)

lemma clamp_lipschitz: "\<bar>clamp a lo hi - clamp b lo hi\<bar> \<le> \<bar>a - b\<bar>"
  for a :: real
  by (auto simp: clamp_def min_def max_def)

lemma clamp_bounds: "lo \<le> hi \<Longrightarrow> lo \<le> clamp v lo hi \<and> clamp v lo hi \<le> hi"
  for v :: "'a::linorder"
  by (auto simp: clamp_def min_def max_def)


lemma scaleIndex_range: "0 \<le> scaleIndex x w \<and> scaleIndex x w \<le> 9"
  using clamp_bounds[of 0 1 "x / w"]
  by (simp add: scaleIndex_def PENTATONIC_FREQUENCIES_def)

lemma baseIndex_range: "0 \<le> \<lfloor>scaleIndex x w\<rfloor> \<and> \<lfloor>scaleIndex x w\<rfloor> \<le> 9"
  using scaleIndex_range[of x w] by (simp add: le_floor_iff floor_le_iff)

lemma getFrequency_segment:
  assumes "\<lfloor>scaleIndex x w\<rfloor> = k" and "0 < w"
  shows "getFrequencyForPosition x w = stepSum (scaleIndex x w)"
proof -
  let ?p = "scaleIndex x w"
  have b: "real_of_int k \<le> ?p" "?p < real_of_int k + 1"
    using assms(1) by linarith+
  have "0 \<le> k" "k \<le> 9"
    using baseIndex_range[of x w] assms(1) by simp_all
  then have "k = 0 \<or> k = 1 \<or> k = 2 \<or> k = 3 \<or> k = 4 \<or> k = 5 \<or> k = 6 \<or> k = 7
      \<or> k = 8 \<or> k = 9"
    by arith
  then have "(let baseIndex = \<lfloor>?p\<rfloor>;
            nextIndex = clamp (baseIndex + 1) 0 (int (length PENTATONIC_FREQUENCIES) - 1);
            fraction = ?p - real_of_int baseIndex;
            startFreq = PENTATONIC_FREQUENCIES ! nat baseIndex;
            endFreq = PENTATONIC_FREQUENCIES ! nat nextIndex
        in startFreq + (endFreq - startFreq) * fraction) = stepSum ?p"
    using b assms(1)
    by (elim disjE)
      (simp_all add: stepSum_def clamp_def PENTATONIC_FREQUENCIES_def Let_def min_def max_def,
        (simp add: algebra_simps)?)
  then show ?thesis
    using assms(2) by (simp add: getFrequencyForPosition_def scaleIndex_def Let_def)
qed

lemma getFrequency_stepSum:
  "0 < w \<Longrightarrow> getFrequencyForPosition x w = stepSum (scaleIndex x w)"
  by (rule getFrequency_segment[OF refl])

lemma nextIndex_nat:
  "0 \<le> k \<Longrightarrow> k \<le> 9
    \<Longrightarrow> nat (clamp (k + 1) 0 (int (length PENTATONIC_FREQUENCIES) - 1))
      = min (nat k + 1) (length PENTATONIC_FREQUENCIES - 1)"
  by (simp add: clamp_def PENTATONIC_FREQUENCIES_def min_def max_def) linarith

lemma getFrequency_bracket:
  assumes "0 < w"
  shows "getFrequencyForPosition x w
           = bracketInterpolation PENTATONIC_FREQUENCIES (scaleIndex x w)"
proof -
  let ?p = "scaleIndex x w"
  have r: "0 \<le> \<lfloor>?p\<rfloor>" "\<lfloor>?p\<rfloor> \<le> 9"
    using baseIndex_range[of x w] by simp_all
  note n = nextIndex_nat[OF r]
  have t: "real (nat \<lfloor>?p\<rfloor>) = real_of_int \<lfloor>?p\<rfloor>"
    using r by simp
  show ?thesis
    using assms
    unfolding getFrequencyForPosition_def bracketInterpolation_def Let_def n t
      scaleIndex_def[symmetric]
    by (simp add: algebra_simps)
qed

lemma stepSum_mono: "p \<le> q \<Longrightarrow> stepSum p \<le> stepSum q"
proof -
  assume pq: "p \<le> q"
  have c: "clamp (p - c) 0 1 \<le> clamp (q - c) 0 1" for c :: real
    using pq by (intro clamp_mono) simp
  have c0: "clamp p 0 1 \<le> clamp q 0 1"
    using pq by (rule clamp_mono)
  show ?thesis
    unfolding stepSum_def
    by (intro add_mono mult_left_mono order_refl c0 c) simp_all
qed

lemma lipschitz_add:
  "\<bar>a1 - a2\<bar> \<le> k1 * d \<Longrightarrow> \<bar>b1 - b2\<bar> \<le> k2 * d
    \<Longrightarrow> \<bar>(a1 + b1) - (a2 + b2)\<bar> \<le> (k1 + k2) * d"
  for a1 :: real
  by (simp add: distrib_right)

lemma lipschitz_clamp_term:
  fixes a :: real
  assumes "0 \<le> k"
  shows "\<bar>k * clamp a 0 1 - k * clamp b 0 1\<bar> \<le> k * \<bar>a - b\<bar>"
proof -
  have "\<bar>k * clamp a 0 1 - k * clamp b 0 1\<bar> = k * \<bar>clamp a 0 1 - clamp b 0 1\<bar>"
    using assms by (simp add: right_diff_distrib[symmetric] abs_mult)
  also have "\<dots> \<le> k * \<bar>a - b\<bar>"
    using clamp_lipschitz[of a 0 1 b] assms by (rule mult_left_mono)
  finally show ?thesis .
qed

lemma stepSum_lipschitz: "\<bar>stepSum p - stepSum q\<bar> \<le> 618.37 * \<bar>p - q\<bar>"
proof -
  have t: "\<bar>k * clamp (p - c) 0 1 - k * clamp (q - c) 0 1\<bar> \<le> k * \<bar>p - q\<bar>"
    if "0 \<le> k" for k c :: real
    using lipschitz_clamp_term[OF that, of "p - c" "q - c"] by simp
  have z: "\<bar>c - c\<bar> \<le> 0 * \<bar>p - q\<bar>" for c :: real
    by simp
  have "\<bar>stepSum p - stepSum q\<bar> \<le>
      (0 + 32.03 + 35.97 + 62.37 + 48 + 83.25 + 64.08 + 71.92 + 124.74 + 96.01) * \<bar>p - q\<bar>"
    unfolding stepSum_def
    by (intro lipschitz_add z t lipschitz_clamp_term) simp_all
  then show ?thesis by simp
qed

lemma scaleIndex_mono: "0 < w \<Longrightarrow> x1 \<le> x2 \<Longrightarrow> scaleIndex x1 w \<le> scaleIndex x2 w"
  by (simp add: scaleIndex_def PENTATONIC_FREQUENCIES_def clamp_mono divide_right_mono)

lemma scaleIndex_lipschitz:
  assumes "0 < w"
  shows "\<bar>scaleIndex x1 w - scaleIndex x2 w\<bar> \<le> 9 * \<bar>x1 - x2\<bar> / w"
proof -
  have "\<bar>clamp (x1 / w) 0 1 - clamp (x2 / w) 0 1\<bar> \<le> \<bar>x1 / w - x2 / w\<bar>"
    by (rule clamp_lipschitz)
  also have "\<bar>x1 / w - x2 / w\<bar> = \<bar>x1 - x2\<bar> / w"
    using assms by (simp add: diff_divide_distrib[symmetric])
  finally have "9 * \<bar>clamp (x1 / w) 0 1 - clamp (x2 / w) 0 1\<bar> \<le> 9 * (\<bar>x1 - x2\<bar> / w)"
    by simp
  moreover have "scaleIndex x1 w - scaleIndex x2 w
      = 9 * (clamp (x1 / w) 0 1 - clamp (x2 / w) 0 1)"
    by (simp add: scaleIndex_def PENTATONIC_FREQUENCIES_def algebra_simps)
  then have "\<bar>scaleIndex x1 w - scaleIndex x2 w\<bar>
      = 9 * \<bar>clamp (x1 / w) 0 1 - clamp (x2 / w) 0 1\<bar>"
    by (simp only: abs_mult)
  ultimately show ?thesis by simp
qed

lemma getFrequency_mono:
  "0 < w \<Longrightarrow> x1 \<le> x2 \<Longrightarrow> getFrequencyForPosition x1 w \<le> getFrequencyForPosition x2 w"
  by (simp add: getFrequency_stepSum stepSum_mono scaleIndex_mono)

lemma getFrequency_lipschitz:
  assumes "0 < w"
  shows "\<bar>getFrequencyForPosition x1 w - getFrequencyForPosition x2 w\<bar>
           \<le> 5565.33 * \<bar>x1 - x2\<bar> / w"
proof -
  have "\<bar>getFrequencyForPosition x1 w - getFrequencyForPosition x2 w\<bar>
         \<le> 618.37 * \<bar>scaleIndex x1 w - scaleIndex x2 w\<bar>"
    unfolding getFrequency_stepSum[OF assms] by (rule stepSum_lipschitz)
  also have "\<dots> \<le> 618.37 * (9 * \<bar>x1 - x2\<bar> / w)"
    using scaleIndex_lipschitz[OF assms, of x1 x2] by simp
  finally show ?thesis by simp
qed

lemma getFrequency_isCont:
  assumes "0 < w"
  shows "isCont (\<lambda>x. getFrequencyForPosition x w) x"
  unfolding isCont_def LIM_def
proof (intro allI impI)
  fix e :: real
  assume e: "0 < e"
  define d where "d = e * w / 5565.33"
  have d: "0 < d"
    using e assms by (simp add: d_def)
  have "dist (getFrequencyForPosition x' w) (getFrequencyForPosition x w) < e"
    if "dist x' x < d" for x'
  proof -
    have "\<bar>x' - x\<bar> < e * w / 5565.33"
      using that by (simp add: dist_real_def d_def)
    then have "5565.33 * \<bar>x' - x\<bar> / w < e"
      using assms by (simp add: field_simps)
    with getFrequency_lipschitz[OF assms, of x' x] show ?thesis
      by (simp add: dist_real_def)
  qed
  with d show "\<exists>s>0. \<forall>x'. x' \<noteq> x \<and> dist x' x < s \<longrightarrow>
      dist (getFrequencyForPosition x' w) (getFrequencyForPosition x w) < e"
    by blast
qed

text \<open>
  Claim C1. For every surface width \<open>w > 0\<close> and positions \<open>0 \<le> x1 \<le> x2 \<le> w\<close>, the
  frequency of the scale mapper at \<open>x1\<close> is at most the frequency at \<open>x2\<close>; the value
  returned is the linear interpolation between the two pitches bracketing the index
  \<open>clamp (x / w) 0 1 * (N - 1)\<close>; and the mapping is continuous in \<open>x\<close>: it has no jump,
  its change being bounded by a fixed multiple of the change of position.
\<close>

theorem C1_frequency_monotone_interpolated_continuous:
  assumes "0 < w" and "0 \<le> x1" and "x1 \<le> x2" and "x2 \<le> w"
  shows "getFrequencyForPosition x1 w \<le> getFrequencyForPosition x2 w
    \<and> getFrequencyForPosition x1 w
        = bracketInterpolation PENTATONIC_FREQUENCIES
            (clamp (x1 / w) 0 1 * real (length PENTATONIC_FREQUENCIES - 1))
    \<and> getFrequencyForPosition x2 w
        = bracketInterpolation PENTATONIC_FREQUENCIES
            (clamp (x2 / w) 0 1 * real (length PENTATONIC_FREQUENCIES - 1))
    \<and> isCont (\<lambda>x. getFrequencyForPosition x w) x1
    \<and> isCont (\<lambda>x. getFrequencyForPosition x w) x2
    \<and> \<bar>getFrequencyForPosition x2 w - getFrequencyForPosition x1 w\<bar>
        \<le> 5565.33 * \<bar>x2 - x1\<bar> / w"
  using assms getFrequency_mono[of w x1 x2] getFrequency_bracket[of w]
    getFrequency_isCont[of w] getFrequency_lipschitz[of w x2 x1]
  by (simp add: scaleIndex_def)

theorem C1_frequency_witness:
  "(0::real) < 100 \<and> (0::real) \<le> 25 \<and> (25::real) \<le> 50 \<and> (50::real) \<le> 100
    \<and> getFrequencyForPosition 25 100 \<le> getFrequencyForPosition 50 100
    \<and> getFrequencyForPosition 25 100 = 345.2225
    \<and> getFrequencyForPosition 50 100 = 481.625"
  using C1_frequency_monotone_interpolated_continuous[of 100 25 50]
  by (simp add: bracketInterpolation_def clamp_def PENTATONIC_FREQUENCIES_def Let_def)

lemma gain_inside:
  fixes q :: real
  assumes "0 \<le> q" and "q \<le> 1"
  shows "clamp (0.18 + (1 - clamp q 0 1) * 0.5) 0.12 0.68 = 0.18 + (1 - q) * 0.5
    \<and> clamp (0.18 + (1 - clamp q 0 1) * 0.5) 0.12 0.7 = 0.18 + (1 - q) * 0.5
    \<and> clamp (0.18 + (1 - q) * 0.5) 0.12 0.7 = 0.18 + (1 - q) * 0.5"
  using assms by (auto simp: clamp_def min_def max_def field_simps)

text \<open>
  Claim C4. For every vertical position \<open>y\<close> in \<open>[0, height]\<close> with \<open>height > 0\<close>, the
  loudness returned by the gain mapper equals
  \<open>clamp (0.18 + (1 - y / height) * 0.5) 0.12 0.7\<close>, in the gesture application as in the
  grid application, and it does not increase when \<open>y\<close> increases.
\<close>

theorem C4_gain_formula_monotone:
  assumes "0 < height" and "0 \<le> y1" and "y1 \<le> y2" and "y2 \<le> height"
  shows "getGainForPosition y1 height = clamp (0.18 + (1 - y1 / height) * 0.5) 0.12 0.7
    \<and> getGainForPosition_grid y1 height = clamp (0.18 + (1 - y1 / height) * 0.5) 0.12 0.7
    \<and> getGainForPosition y2 height = clamp (0.18 + (1 - y2 / height) * 0.5) 0.12 0.7
    \<and> getGainForPosition_grid y2 height = clamp (0.18 + (1 - y2 / height) * 0.5) 0.12 0.7
    \<and> getGainForPosition y2 height \<le> getGainForPosition y1 height
    \<and> getGainForPosition_grid y2 height \<le> getGainForPosition_grid y1 height"
proof -
  define g where "g y = 0.18 + (1 - y / height) * 0.5" for y
  have r: "0 \<le> y / height" "y / height \<le> 1" if "0 \<le> y" "y \<le> height" for y
    using that assms(1) by simp_all
  have f: "getGainForPosition y height = g y" "getGainForPosition_grid y height = g y"
      "clamp (0.18 + (1 - y / height) * 0.5) 0.12 0.7 = g y"
    if "0 \<le> y" "y \<le> height" for y
    using gain_inside[OF r[OF that]] assms(1)
    by (simp_all add: getGainForPosition_def getGainForPosition_grid_def Let_def g_def)
  have y1: "0 \<le> y1" "y1 \<le> height" and y2: "0 \<le> y2" "y2 \<le> height"
    using assms by simp_all
  have m: "0.18 + (1 - b) * 0.5 \<le> 0.18 + (1 - a) * 0.5" if "a \<le> b" for a b :: real
    using that by simp
  have "y1 / height \<le> y2 / height"
    using assms(1,3) by (simp add: divide_right_mono)
  then have "g y2 \<le> g y1"
    unfolding g_def by (rule m)
  then show ?thesis
    unfolding f[OF y1] f[OF y2] by simp
qed

theorem C4_gain_witness:
  "(0::real) < 400 \<and> (0::real) \<le> 0 \<and> (0::real) \<le> 200 \<and> (200::real) \<le> 400
    \<and> getGainForPosition 0 400 = 0.68 \<and> getGainForPosition_grid 0 400 = 0.68
    \<and> getGainForPosition 200 400 = 0.43 \<and> getGainForPosition_grid 200 400 = 0.43
    \<and> getGainForPosition 200 400 \<le> getGainForPosition 0 400"
  using C4_gain_formula_monotone[of 400 0 200]
  by (simp add: clamp_def)

text \<open>
  Claim C10. For every \<open>x\<close> and every non-positive surface width, the scale mapper
  returns the lowest pentatonic frequency, 261.63 Hz, the first element of the table,
  and performs no division by the width.
\<close>

theorem C10_degenerate_width_lowest_pitch:
  assumes "width \<le> 0"
  shows "getFrequencyForPosition x width = 261.63
    \<and> getFrequencyForPosition x width = hd PENTATONIC_FREQUENCIES"
  using assms by (simp add: getFrequencyForPosition_def PENTATONIC_FREQUENCIES_def)

theorem C10_degenerate_width_witness:
  "(0::real) \<le> 0 \<and> (- 3::real) \<le> 0
    \<and> getFrequencyForPosition 120 0 = 261.63
    \<and> getFrequencyForPosition 120 (- 3) = 261.63"
  using C10_degenerate_width_lowest_pitch[of 0 120]
    C10_degenerate_width_lowest_pitch[of "- 3" 120]
  by simp

section \<open>Properties of the ripple fields\<close>

lemma delete_filter: "AList.delete k ems = filter (\<lambda>p. fst p \<noteq> k) ems"
  by (induction ems) auto


lemma drawEmitters_fst:
  "fst (drawEmitters now es ems)
     = filter (\<lambda>p. fst p \<notin> em_id ` {e \<in> set es. fades now e}) ems"
proof (induction es arbitrary: ems)
  case Nil
  then show ?case by simp
next
  case (Cons e es)
  show ?case
  proof (cases "fades now e")
    case True
    then have "fst (drawEmitters now (e # es) ems)
        = filter (\<lambda>p. fst p \<notin> em_id ` {e \<in> set es. fades now e})
            (filter (\<lambda>p. fst p \<noteq> em_id e) ems)"
      using Cons.IH[of "AList.delete (em_id e) ems"]
      by (simp add: fades_def Let_def delete_filter)
    also have "\<dots> = filter (\<lambda>p. fst p \<notin> em_id ` {e' \<in> set (e # es). fades now e'}) ems"
      using True by (auto intro!: filter_cong)
    finally show ?thesis .
  next
    case False
    then have "fst (drawEmitters now (e # es) ems) = fst (drawEmitters now es ems)"
      by (simp add: fades_def Let_def split: prod.splits)
    also have "\<dots> = filter (\<lambda>p. fst p \<notin> em_id ` {e' \<in> set (e # es). fades now e'}) ems"
      unfolding Cons.IH using False by (auto intro!: filter_cong)
    finally show ?thesis .
  qed
qed




lemma set_alist_update: "set (AList.update k v al) \<subseteq> insert (k, v) (set al)"
  by (induction al) auto


lemma keysOK_update:
  assumes "keysOK ems" and "em_id e = k"
  shows "keysOK (AList.update k e ems)"
proof -
  have "em_id (snd p) = fst p" if "p \<in> set (AList.update k e ems)" for p
    using that set_alist_update[of k e ems] assms
    by (auto simp: keysOK_def list_all_iff)
  then show ?thesis
    using assms(1) by (simp add: keysOK_def distinct_update list_all_iff)
qed


lemma keysOK_filter: "keysOK ems \<Longrightarrow> keysOK (filter P ems)"
  unfolding keysOK_def by (auto simp: distinct_map_filter list_all_iff)


lemma keysOK_lookup: "keysOK ems \<Longrightarrow> map_of ems k = Some e \<Longrightarrow> em_id e = k"
  unfolding keysOK_def by (auto simp: list_all_iff dest!: map_of_SomeD)


lemma keysOK_setEmitter:
  "keysOK (rf_emitters fld) \<Longrightarrow> keysOK (rf_emitters (setEmitter now k x y f fld))"
  by (auto simp: setEmitter_def Let_def intro!: keysOK_update dest: keysOK_lookup
      split: option.splits)


lemma keysOK_releaseEmitter:
  "keysOK (rf_emitters fld) \<Longrightarrow> keysOK (rf_emitters (releaseEmitter now k fld))"
  by (auto simp: releaseEmitter_def intro!: keysOK_update dest: keysOK_lookup
      split: option.splits)


lemma draw_emitters:
  "rf_emitters (fst (draw now fld))
     = filter (\<lambda>p. fst p \<notin> em_id ` {e \<in> snd ` set (rf_emitters fld). fades now e})
         (rf_emitters fld)"
  using drawEmitters_fst[of now "sort_key em_zIndex (map snd (rf_emitters fld))" "rf_emitters fld"]
  by (simp add: draw_def case_prod_beta)




lemma keysOK_fieldOp: "keysOK (rf_emitters fld) \<Longrightarrow> keysOK (rf_emitters (fieldOp op fld))"
  by (cases op)
    (simp_all add: keysOK_setEmitter keysOK_releaseEmitter clearEmitter_def delete_filter
      keysOK_filter pulse_def frame_def draw_emitters destroy_def, simp add: keysOK_def)


lemma keysOK_runField:
  "keysOK (rf_emitters fld) \<Longrightarrow> keysOK (rf_emitters (runField ops fld))"
  unfolding runField_def
  by (induction ops arbitrary: fld) (simp_all add: keysOK_fieldOp)


lemma keysOK_reachable: "keysOK (rf_emitters (runField ops newRainbowField))"
  by (rule keysOK_runField) (simp add: newRainbowField_def keysOK_def)












lemma colorStep_fields:
  "cem_id (colorStep now e) = cem_id e" "cem_active (colorStep now e) = cem_active e"
  "cem_releaseAt (colorStep now e) = cem_releaseAt e" "cem_x (colorStep now e) = cem_x e"
  "cem_y (colorStep now e) = cem_y e" "cem_frequency (colorStep now e) = cem_frequency e"
  "cem_createdAt (colorStep now e) = cem_createdAt e"
  by (simp_all add: colorStep_def Let_def)








lemma set_map_entry: "set (AList.map_entry k f al) \<subseteq> set al \<union> {(k, f v) | v. (k, v) \<in> set al}"
  by (induction al) auto


lemma keysOKC_map_entry:
  assumes "keysOKC ems" and "cem_id e = k"
  shows "keysOKC (AList.map_entry k (\<lambda>_. e) ems)"
proof -
  have "cem_id (snd p) = fst p" if "p \<in> set (AList.map_entry k (\<lambda>_. e) ems)" for p
    using that set_map_entry[of k "\<lambda>_. e" ems] assms
    by (auto simp: keysOKC_def list_all_iff)
  then show ?thesis
    using assms(1) by (simp add: keysOKC_def distinct_map_entry list_all_iff)
qed


lemma keysOKC_filter: "keysOKC ems \<Longrightarrow> keysOKC (filter P ems)"
  unfolding keysOKC_def by (auto simp: distinct_map_filter list_all_iff)


lemma keysOKC_drawEmittersC: "keysOKC ems \<Longrightarrow> keysOKC (fst (drawEmittersC now es ems))"
proof (induction es arbitrary: ems)
  case Nil
  then show ?case by simp
next
  case (Cons e es)
  have k1: "keysOKC (AList.map_entry (cem_id e) (\<lambda>_. colorStep now e) ems)"
    using Cons.prems by (rule keysOKC_map_entry) (simp add: colorStep_fields)
  then have k2: "keysOKC (AList.delete (cem_id e) (AList.map_entry (cem_id e) (\<lambda>_. colorStep now e) ems))"
    by (simp add: delete_filter keysOKC_filter)
  show ?case
    using Cons.IH[OF k1] Cons.IH[OF k2]
    by (simp add: Let_def colorStep_fields case_prod_beta)
qed


lemma keysOKC_update:
  assumes "keysOKC ems" and "cem_id e = k"
  shows "keysOKC (AList.update k e ems)"
proof -
  have "cem_id (snd p) = fst p" if "p \<in> set (AList.update k e ems)" for p
    using that set_alist_update[of k e ems] assms
    by (auto simp: keysOKC_def list_all_iff)
  then show ?thesis
    using assms(1) by (simp add: keysOKC_def distinct_update list_all_iff)
qed


lemma keysOKC_lookup: "keysOKC ems \<Longrightarrow> map_of ems k = Some e \<Longrightarrow> cem_id e = k"
  unfolding keysOKC_def by (auto simp: list_all_iff dest!: map_of_SomeD)


lemma keysOKC_setEmitterC:
  "keysOKC (cf_emitters fld) \<Longrightarrow> keysOKC (cf_emitters (setEmitterC now k x y f c d fld))"
  by (auto simp: setEmitterC_def Let_def intro!: keysOKC_update dest: keysOKC_lookup
      split: option.splits)


lemma keysOKC_releaseEmitterC:
  "keysOKC (cf_emitters fld) \<Longrightarrow> keysOKC (cf_emitters (releaseEmitterC now k fld))"
  by (auto simp: releaseEmitterC_def intro!: keysOKC_update dest: keysOKC_lookup
      split: option.splits)


lemma drawC_emitters:
  "cf_emitters (fst (drawC now fld))
     = fst (drawEmittersC now (sort_key cem_zIndex (map snd (cf_emitters fld))) (cf_emitters fld))"
  by (simp add: drawC_def case_prod_beta)




lemma keysOKC_fieldOpC: "keysOKC (cf_emitters fld) \<Longrightarrow> keysOKC (cf_emitters (fieldOpC op fld))"
  by (cases op)
    (simp_all add: keysOKC_setEmitterC keysOKC_releaseEmitterC clearEmitterC_def delete_filter
      keysOKC_filter pulseC_def frameC_def drawC_emitters keysOKC_drawEmittersC destroyC_def,
      simp add: keysOKC_def)


lemma keysOKC_runFieldC:
  "keysOKC (cf_emitters fld) \<Longrightarrow> keysOKC (cf_emitters (runFieldC ops fld))"
  unfolding runFieldC_def
  by (induction ops arbitrary: fld) (simp_all add: keysOKC_fieldOpC)


lemma keysOKC_reachable: "keysOKC (cf_emitters (runFieldC ops newRainbowFieldC))"
  by (rule keysOKC_runFieldC) (simp add: newRainbowFieldC_def keysOKC_def)










section \<open>Properties of the gesture application\<close>

lemma appOK_init: "appOK (initApp p)"
  by (simp add: appOK_def initApp_def newRainbowField_def keysOK_def)

lemma keysOK_pulse: "keysOK (rf_emitters (pulse now x y f d fld)) = keysOK (rf_emitters fld)"
  by (simp add: pulse_def)

lemma keysOK_frame: "keysOK (rf_emitters fld) \<Longrightarrow> keysOK (rf_emitters (frame now fld))"
  using keysOK_fieldOp[of fld "Frame now"] by simp

lemma stopVoice_fields:
  "audioContext (stopVoice k s) = audioContext s"
  "stereoPanner (stopVoice k s) = stereoPanner s"
  "activePointers (stopVoice k s) = activePointers s"
  "pointerMeta (stopVoice k s) = pointerMeta s"
  "rainbowField (stopVoice k s) = rainbowField s"
  "sounds (stopVoice k s) = sounds s"
  by (simp_all add: stopVoice_def Let_def split: option.splits)

lemma stopVoice_voices:
  "voices (stopVoice k s) = (if audioContext s then AList.delete k (voices s) else voices s)"
  by (auto simp: stopVoice_def Let_def map_of_eq_None_iff split: option.splits)

lemma appOK_voices_context: "appOK s \<Longrightarrow> map_of (voices s) k = Some v \<Longrightarrow> audioContext s"
  by (auto simp: appOK_def)

lemma appOK_meta_context: "appOK s \<Longrightarrow> map_of (pointerMeta s) k = Some m \<Longrightarrow> audioContext s"
  by (auto simp: appOK_def)

lemma stopVoice_gone: "appOK s \<Longrightarrow> map_of (voices (stopVoice k s)) k = None"
  by (cases "map_of (voices s) k")
    (auto simp: stopVoice_def Let_def delete_conv' dest: appOK_voices_context)

lemma appOK_stopVoice: "appOK s \<Longrightarrow> appOK (stopVoice k s)"
  by (auto simp: appOK_def stopVoice_fields stopVoice_voices distinct_delete)

lemma appOK_begin: "appOK s \<Longrightarrow> appOK (handlePointerDown_begin c k s)"
  by (auto simp: appOK_def handlePointerDown_begin_def ensureAudioContext_def)

lemma appOK_resume: "appOK s \<Longrightarrow> appOK (handlePointerDown_resume r k x y w h now s)"
proof -
  assume ok: "appOK s"
  define s1 where "s1 = (case map_of (releaseTimers s) k of
                    None \<Rightarrow> s
                  | Some releaseTimer \<Rightarrow>
                      if releaseTimer = 0 then s
                      else s\<lparr>timeouts := filter (\<lambda>t. fst t \<noteq> releaseTimer) (timeouts s),
                             releaseTimers := AList.delete k (releaseTimers s)\<rparr>)"
  have f: "voices s1 = voices s" "rainbowField s1 = rainbowField s"
      "audioContext s1 = audioContext s" "pointerMeta s1 = pointerMeta s"
      "activePointers s1 = activePointers s"
    by (simp_all add: s1_def split: option.splits)
  then have ok1: "appOK s1"
    using ok by (simp add: appOK_def)
  show ?thesis
  proof (cases "audioContext s \<and> r")
    case False
    then have "handlePointerDown_resume r k x y w h now s
        = s\<lparr>activePointers := activePointers s - {k}\<rparr>"
      by (simp add: handlePointerDown_resume_def)
    then show ?thesis
      using ok by (simp add: appOK_def)
  next
    case True
    show ?thesis
    proof (cases "k \<in> activePointers s")
      case False
      then have "handlePointerDown_resume r k x y w h now s = s1"
        using True f(5) by (simp add: handlePointerDown_resume_def s1_def[symmetric])
      then show ?thesis
        using ok1 by simp
    next
      case active: True
      obtain voice meta where
        "handlePointerDown_resume r k x y w h now s
          = s1\<lparr>oscillators := oscillators s1 @ [nextOscillator s1],
                nextOscillator := nextOscillator s1 + 1,
                voices := AList.update k voice (voices s1),
                pointerMeta := AList.update k meta (pointerMeta s1),
                rainbowField := setEmitter now k x y (getFrequencyForPosition x w)
                   (rainbowField s1)\<rparr>"
        using True active f(5)
        by (simp add: handlePointerDown_resume_def s1_def[symmetric] Let_def)
      then show ?thesis
        using ok1 True f(3)
        by (simp add: appOK_def distinct_update keysOK_setEmitter)
    qed
  qed
qed

lemma move_idle:
  "map_of (voices s) k = None \<or> map_of (pointerMeta s) k = None \<or> \<not> audioContext s
    \<Longrightarrow> handlePointerMove k x y w h now s = s"
  by (auto simp: handlePointerMove_def split: option.splits)

lemma move_resolved:
  assumes "map_of (voices s) k = Some voice" and "map_of (pointerMeta s) k = Some meta"
    and "audioContext s" and "triggeredShimmer meta"
  shows "handlePointerMove k x y w h now s
           = s\<lparr>pointerMeta := AList.update k (movedMeta meta x y) (pointerMeta s)\<rparr>"
  using assms by (simp add: handlePointerMove_def Let_def movedMeta_def)

lemma move_flare:
  assumes "map_of (voices s) k = Some voice" and "map_of (pointerMeta s) k = Some meta"
    and "audioContext s" and "\<not> triggeredShimmer meta" and "flares meta x y"
  shows "handlePointerMove k x y w h now s
     = triggerShimmerArpeggio x y (getFrequencyForPosition x w) now
        ((stopVoice k
           (s\<lparr>pointerMeta := AList.update k ((movedMeta meta x y)\<lparr>triggeredShimmer := True\<rparr>)
                 (pointerMeta s)\<rparr>))
         \<lparr>rainbowField := releaseEmitter now k (rainbowField s)\<rparr>)"
  using assms
  by (simp add: handlePointerMove_def Let_def movedMeta_def flares_def stopVoice_fields)

lemma move_tone:
  assumes "map_of (voices s) k = Some voice" and "map_of (pointerMeta s) k = Some meta"
    and "audioContext s" and "\<not> triggeredShimmer meta" and "\<not> flares meta x y"
  shows "\<exists>meta2 voice3. handlePointerMove k x y w h now s
     = s\<lparr>pointerMeta := AList.update k meta2 (pointerMeta s),
          voices := AList.update k voice3 (voices s),
          rainbowField := setEmitter now k x y (getFrequencyForPosition x w) (rainbowField s)\<rparr>"
proof -
  consider "instrumentLocked meta" | "\<not> \<bar>x - startX meta\<bar> > 60" | "\<not> \<bar>y - startY meta\<bar> > 60"
    | "\<not> \<bar>\<bar>x - startX meta\<bar> - \<bar>y - startY meta\<bar>\<bar> < 40"
    using assms(5) unfolding flares_def by blast
  then show ?thesis
    by cases
      (use assms(1-4) in \<open>simp_all add: handlePointerMove_def Let_def\<close>, blast+)
qed

lemma appOK_move: "appOK s \<Longrightarrow> appOK (handlePointerMove k x y w h now s)"
proof -
  assume ok: "appOK s"
  consider (idle) "map_of (voices s) k = None \<or> map_of (pointerMeta s) k = None \<or> \<not> audioContext s"
    | (resolved) voice meta where "map_of (voices s) k = Some voice"
        "map_of (pointerMeta s) k = Some meta" "audioContext s" "triggeredShimmer meta"
    | (flare) voice meta where "map_of (voices s) k = Some voice"
        "map_of (pointerMeta s) k = Some meta" "audioContext s" "\<not> triggeredShimmer meta"
        "flares meta x y"
    | (tone) voice meta where "map_of (voices s) k = Some voice"
        "map_of (pointerMeta s) k = Some meta" "audioContext s" "\<not> triggeredShimmer meta"
        "\<not> flares meta x y"
    by (cases "map_of (voices s) k"; cases "map_of (pointerMeta s) k"; blast)
  then show ?thesis
  proof cases
    case idle
    then show ?thesis
      using ok by (simp add: move_idle)
  next
    case resolved
    then show ?thesis
      using ok by (simp add: move_resolved appOK_def)
  next
    case flare
    define s1 where "s1 = s\<lparr>pointerMeta :=
        AList.update k ((movedMeta meta x y)\<lparr>triggeredShimmer := True\<rparr>) (pointerMeta s)\<rparr>"
    define s3 where "s3 = (stopVoice k s1)\<lparr>rainbowField := releaseEmitter now k (rainbowField s)\<rparr>"
    have "appOK s1"
      using ok flare(3) by (simp add: appOK_def s1_def)
    then have "appOK (stopVoice k s1)"
      by (rule appOK_stopVoice)
    then have "appOK s3"
      using ok by (simp add: appOK_def s3_def keysOK_releaseEmitter)
    then have "appOK (triggerShimmerArpeggio x y (getFrequencyForPosition x w) now s3)"
      by (auto simp: appOK_def triggerShimmerArpeggio_def keysOK_pulse)
    then show ?thesis
      using move_flare[OF flare, of w h now] by (simp add: s1_def s3_def)
  next
    case tone
    from move_tone[OF tone, of w h now] show ?thesis
      using ok tone(3) by (auto simp: appOK_def distinct_update keysOK_setEmitter)
  qed
qed

lemma appOK_up: "appOK s \<Longrightarrow> appOK (handlePointerUp k x y w now s)"
proof -
  assume ok: "appOK s"
  define s1 where "s1 = s\<lparr>activePointers := activePointers s - {k}\<rparr>"
  define s2 where "s2 = stopVoice k s1"
  define s3 where "s3 = s2\<lparr>rainbowField := releaseEmitter now k (rainbowField s2)\<rparr>"
  define s4 where "s4 = s3\<lparr>pointerMeta := AList.delete k (pointerMeta s3)\<rparr>"
  have "appOK s1"
    using ok by (simp add: appOK_def s1_def)
  then have "appOK s2"
    unfolding s2_def by (rule appOK_stopVoice)
  then have "appOK s3"
    by (simp add: appOK_def s3_def keysOK_releaseEmitter)
  then have ok4: "appOK s4"
    by (auto simp: appOK_def s4_def)
  then have ok5: "appOK (triggerBellChime x y f now s4)" for f
    by (auto simp: appOK_def triggerBellChime_def keysOK_pulse)
  have "handlePointerUp k x y w now s = s4
      \<or> (\<exists>f. handlePointerUp k x y w now s = triggerBellChime x y f now s4)"
    unfolding handlePointerUp_def Let_def s1_def[symmetric] s2_def[symmetric] s3_def[symmetric]
      s4_def[symmetric]
    by (cases "map_of (pointerMeta s3) k") auto
  then show ?thesis
    using ok4 ok5 by auto
qed

lemma appOK_cancel: "appOK s \<Longrightarrow> appOK (handlePointerCancel k now s)"
proof -
  assume ok: "appOK s"
  define s1 where "s1 = s\<lparr>activePointers := activePointers s - {k}\<rparr>"
  define s2 where "s2 = stopVoice k s1"
  have "appOK s1"
    using ok by (simp add: appOK_def s1_def)
  then have "appOK s2"
    unfolding s2_def by (rule appOK_stopVoice)
  then show ?thesis
    by (auto simp: appOK_def handlePointerCancel_def Let_def s1_def s2_def
        keysOK_releaseEmitter)
qed

lemma appOK_timeout: "appOK s \<Longrightarrow> appOK (timeoutFired t s)"
  by (simp add: appOK_def timeoutFired_def split: option.splits prod.splits)

lemma appOK_step: "appOK s \<Longrightarrow> appOK (step ev s)"
  by (cases ev)
    (simp_all add: appOK_begin appOK_resume appOK_move appOK_up appOK_cancel appOK_timeout,
      simp add: appOK_def keysOK_frame)

lemma appOK_run: "appOK s \<Longrightarrow> appOK (run evs s)"
  unfolding run_def by (induction evs arbitrary: s) (simp_all add: appOK_step)

lemma appOK_reachable: "appOK (run evs (initApp p))"
  by (rule appOK_run) (rule appOK_init)

lemma filter_key_le1: "distinct (map fst al) \<Longrightarrow> length (filter (\<lambda>p. fst p = k) al) \<le> 1"
proof (induction al)
  case Nil
  then show ?case by simp
next
  case (Cons p al)
  show ?case
  proof (cases "fst p = k")
    case True
    then have "k \<notin> fst ` set al"
      using Cons.prems by auto
    then have "filter (\<lambda>p. fst p = k) al = []"
      by (auto simp: filter_empty_conv)
    then show ?thesis
      using True by simp
  next
    case False
    then show ?thesis
      using Cons by simp
  qed
qed

text \<open>
  In every reachable state the map of voices and the map of emitters hold at most one
  entry for a pointer id, and so does either variant of the field under any sequence of
  its own operations. This is a fact about the maps; it does not bound the oscillators
  that sound.
\<close>

lemma maps_hold_one_entry_per_pointer:
  "length (filter (\<lambda>p. fst p = k) (voices (run events (initApp panner)))) \<le> 1
   \<and> length (filter (\<lambda>p. fst p = k)
        (rf_emitters (rainbowField (run events (initApp panner))))) \<le> 1
   \<and> length (filter (\<lambda>p. fst p = k) (rf_emitters (runField ops newRainbowField))) \<le> 1
   \<and> length (filter (\<lambda>p. fst p = k) (cf_emitters (runFieldC opsC newRainbowFieldC))) \<le> 1"
  using appOK_reachable[of events panner] keysOK_reachable[of ops] keysOKC_reachable[of opsC]
  by (intro conjI filter_key_le1) (simp_all add: appOK_def keysOK_def keysOKC_def)

text \<open>
  Claim C5. In every reachable state each pointer id is to have at most one voice and at
  most one emitter. The code does not keep this for the voices. The second part of
  \<^verbatim>\<open>handlePointerDown\<close> checks only that the pointer is active before it starts an
  oscillator, and it stores the new voice over a voice already stored for the pointer
  without stopping that voice. Below, the audio context is still resuming when pointer 1
  goes down, up and down again, and then both pending pointer-downs resume, one after the
  other. Both find the pointer active: two oscillators sound for pointer 1 and the map
  holds the second voice only. The pointer-up that follows stops the second oscillator;
  the first still sounds, and no voice is left through which it could be stopped.
\<close>

theorem C5_second_press_starts_second_oscillator:
  "oscillators (run [PointerDown True 1, PointerUp 1 100 300 900 1050, PointerDown True 1,
        AudioSettled True 1 100 300 900 600 1100, AudioSettled True 1 800 300 900 600 1100]
        (initApp True)) = [0, 1]
   \<and> map (\<lambda>p. (fst p, v_oscillator (snd p)))
        (voices (run [PointerDown True 1, PointerUp 1 100 300 900 1050, PointerDown True 1,
           AudioSettled True 1 100 300 900 600 1100, AudioSettled True 1 800 300 900 600 1100]
           (initApp True))) = [(1, 1)]
   \<and> oscillators (run [PointerDown True 1, PointerUp 1 100 300 900 1050, PointerDown True 1,
        AudioSettled True 1 100 300 900 600 1100, AudioSettled True 1 800 300 900 600 1100,
        PointerUp 1 800 300 900 1500] (initApp True)) = [0]
   \<and> voices (run [PointerDown True 1, PointerUp 1 100 300 900 1050, PointerDown True 1,
        AudioSettled True 1 100 300 900 600 1100, AudioSettled True 1 800 300 900 600 1100,
        PointerUp 1 800 300 900 1500] (initApp True)) = []"
  by (simp add: run_def initApp_def handlePointerDown_begin_def ensureAudioContext_def
      handlePointerUp_def handlePointerDown_resume_def stopVoice_def releaseEmitter_def
      newRainbowField_def setEmitter_def Let_def update_conv' triggerBellChime_def pulse_def)

lemma releaseEmitter_inactive:
  "case map_of (rf_emitters (releaseEmitter now k fld)) k of None \<Rightarrow> True
     | Some e \<Rightarrow> \<not> em_active e"
  by (simp add: releaseEmitter_def update_conv' split: option.splits)

lemma releaseEmitter_idle:
  "(case map_of (rf_emitters fld) k of None \<Rightarrow> True | Some e \<Rightarrow> \<not> em_active e)
    \<Longrightarrow> releaseEmitter now k fld = fld"
  by (simp add: releaseEmitter_def split: option.splits)

lemma releaseEmitter_pulses: "rf_pulses (releaseEmitter now k fld) = rf_pulses fld"
  by (simp add: releaseEmitter_def split: option.splits)

lemma stopVoice_idle: "map_of (voices s) k = None \<Longrightarrow> stopVoice k s = s"
  by (simp add: stopVoice_def)

lemma quiet_parts:
  assumes "quiet k s"
  shows "s\<lparr>activePointers := activePointers s - {k}\<rparr> = s" and "stopVoice k s = s"
    and "AList.delete k (pointerMeta s) = pointerMeta s"
    and "releaseEmitter now k (rainbowField s) = rainbowField s"
    and "map_of (pointerMeta s) k = None"
proof -
  show "s\<lparr>activePointers := activePointers s - {k}\<rparr> = s"
    using assms by (simp add: quiet_def)
  show "stopVoice k s = s"
    using assms by (simp add: quiet_def stopVoice_idle)
  show "map_of (pointerMeta s) k = None"
    using assms by (simp add: quiet_def)
  then have "k \<notin> fst ` set (pointerMeta s)"
    by (simp add: map_of_eq_None_iff)
  then show "AList.delete k (pointerMeta s) = pointerMeta s"
    by (rule delete_id)
  show "releaseEmitter now k (rainbowField s) = rainbowField s"
    using assms by (intro releaseEmitter_idle) (simp add: quiet_def)
qed

lemma quiet_cancel: "quiet k s \<Longrightarrow> handlePointerCancel k now s = s"
  unfolding handlePointerCancel_def Let_def
  by (simp add: quiet_parts)

lemma quiet_up: "quiet k s \<Longrightarrow> handlePointerUp k x y w now s = s"
  unfolding handlePointerUp_def Let_def
  by (simp add: quiet_parts)

lemma cancel_quiet: "appOK s \<Longrightarrow> quiet k (handlePointerCancel k now s)"
  using stopVoice_gone[of "s\<lparr>activePointers := activePointers s - {k}\<rparr>" k]
    releaseEmitter_inactive[of now k "rainbowField s"]
  by (simp add: quiet_def handlePointerCancel_def Let_def stopVoice_fields delete_conv' appOK_def)

lemma up_parts:
  "\<exists>s4. (handlePointerUp k x y w now s = s4
         \<or> (\<exists>f. handlePointerUp k x y w now s = triggerBellChime x y f now s4))
     \<and> activePointers s4 = activePointers s - {k}
     \<and> voices s4 = voices (stopVoice k (s\<lparr>activePointers := activePointers s - {k}\<rparr>))
     \<and> pointerMeta s4 = AList.delete k (pointerMeta s)
     \<and> rainbowField s4 = releaseEmitter now k (rainbowField s)"
proof -
  define s3 where "s3 = (stopVoice k (s\<lparr>activePointers := activePointers s - {k}\<rparr>))
     \<lparr>rainbowField := releaseEmitter now k (rainbowField s)\<rparr>"
  define s4 where "s4 = s3\<lparr>pointerMeta := AList.delete k (pointerMeta s)\<rparr>"
  have "handlePointerUp k x y w now s = s4
      \<or> (\<exists>f. handlePointerUp k x y w now s = triggerBellChime x y f now s4)"
    by (cases "map_of (pointerMeta s) k")
      (auto simp: handlePointerUp_def Let_def stopVoice_fields s3_def s4_def)
  then show ?thesis
    by (intro exI[of _ s4]) (simp add: s3_def s4_def stopVoice_fields)
qed

lemma chime_fields:
  "activePointers (triggerBellChime x y f now s) = activePointers s"
  "voices (triggerBellChime x y f now s) = voices s"
  "pointerMeta (triggerBellChime x y f now s) = pointerMeta s"
  "rf_emitters (rainbowField (triggerBellChime x y f now s)) = rf_emitters (rainbowField s)"
  by (simp_all add: triggerBellChime_def pulse_def)

lemma up_quiet: "appOK s \<Longrightarrow> quiet k (handlePointerUp k x y w now s)"
proof -
  assume ok: "appOK s"
  obtain s4 where s4: "handlePointerUp k x y w now s = s4
         \<or> (\<exists>f. handlePointerUp k x y w now s = triggerBellChime x y f now s4)"
     "activePointers s4 = activePointers s - {k}"
     "voices s4 = voices (stopVoice k (s\<lparr>activePointers := activePointers s - {k}\<rparr>))"
     "pointerMeta s4 = AList.delete k (pointerMeta s)"
     "rainbowField s4 = releaseEmitter now k (rainbowField s)"
    using up_parts[of k x y w now s] by blast
  have "appOK (s\<lparr>activePointers := activePointers s - {k}\<rparr>)"
    using ok by (simp add: appOK_def)
  then have "map_of (voices s4) k = None"
    unfolding s4(3) by (rule stopVoice_gone)
  then have "quiet k s4"
    using s4(2,4,5) releaseEmitter_inactive[of now k "rainbowField s"]
    by (simp add: quiet_def delete_conv')
  then have "quiet k (triggerBellChime x y f now s4)" for f
    by (simp add: quiet_def chime_fields)
  then show ?thesis
    using s4(1) \<open>quiet k s4\<close> by auto
qed

lemma cancel_effects:
  "sounds (handlePointerCancel k now s) = sounds s"
  "rf_pulses (rainbowField (handlePointerCancel k now s)) = rf_pulses (rainbowField s)"
  "timeouts (handlePointerCancel k now s)
     = (case map_of (voices s) k of
          None \<Rightarrow> timeouts s
        | Some v \<Rightarrow> if audioContext s
                    then timeouts s @ [(nextTimeoutId s, k, v\<lparr>v_gain := 0\<rparr>)]
                    else timeouts s)"
  "oscillators (handlePointerCancel k now s)
     = (case map_of (voices s) k of
          None \<Rightarrow> oscillators s
        | Some v \<Rightarrow> if audioContext s
                    then removeAll (v_oscillator v) (oscillators s)
                    else oscillators s)"
  by (simp_all add: handlePointerCancel_def Let_def stopVoice_fields releaseEmitter_pulses
      stopVoice_def split: option.splits)

lemma resume_inactive:
  assumes "k \<notin> activePointers s"
  shows "voices (handlePointerDown_resume r k x y w h t s) = voices s"
    and "sounds (handlePointerDown_resume r k x y w h t s) = sounds s"
    and "pointerMeta (handlePointerDown_resume r k x y w h t s) = pointerMeta s"
proof -
  define s1 where "s1 = (case map_of (releaseTimers s) k of
                    None \<Rightarrow> s
                  | Some releaseTimer \<Rightarrow>
                      if releaseTimer = 0 then s
                      else s\<lparr>timeouts := filter (\<lambda>t. fst t \<noteq> releaseTimer) (timeouts s),
                             releaseTimers := AList.delete k (releaseTimers s)\<rparr>)"
  have f: "activePointers s1 = activePointers s" "voices s1 = voices s" "sounds s1 = sounds s"
      "pointerMeta s1 = pointerMeta s"
    by (simp_all add: s1_def split: option.splits)
  have "handlePointerDown_resume r k x y w h t s = s1
      \<or> handlePointerDown_resume r k x y w h t s = s\<lparr>activePointers := activePointers s - {k}\<rparr>"
    using assms f(1) by (simp add: handlePointerDown_resume_def s1_def[symmetric])
  then show "voices (handlePointerDown_resume r k x y w h t s) = voices s"
    and "sounds (handlePointerDown_resume r k x y w h t s) = sounds s"
    and "pointerMeta (handlePointerDown_resume r k x y w h t s) = pointerMeta s"
    using f by auto
qed

text \<open>
  What a pointer-cancel does to the state, in every reachable state and for every pointer
  id. It leaves no voice for the pointer in the map of voices: a voice that was there has
  its oscillator stopped and is handed, with its gain ramped to zero, to the release
  timeout. It leaves the pointer's emitter absent or released, removes the pointer's
  gesture metadata and its entry in the set of active pointers, and triggers no one-shot
  sound and no pulse, whatever the duration and distance of the gesture. A pointer-cancel
  after a pointer-up of the same pointer, a pointer-up after a pointer-cancel, a repeated
  pointer-cancel, and a pointer-cancel for a pointer the application holds nothing for,
  all leave the state unchanged. A pointer-down of the pointer that was still awaiting
  the audio context when the cancel arrived creates no voice and no sound when it
  resumes. The only oscillator that a pointer-cancel stops is the one of the voice stored
  for the pointer.
\<close>

lemma cancel_releases_stored_voice_silently:
  "map_of (voices (handlePointerCancel k now (run events (initApp panner)))) k = None
   \<and> oscillators (handlePointerCancel k now (run events (initApp panner)))
       = (case map_of (voices (run events (initApp panner))) k of
            None \<Rightarrow> oscillators (run events (initApp panner))
          | Some v \<Rightarrow> removeAll (v_oscillator v) (oscillators (run events (initApp panner))))
   \<and> map_of (pointerMeta (handlePointerCancel k now (run events (initApp panner)))) k = None
   \<and> k \<notin> activePointers (handlePointerCancel k now (run events (initApp panner)))
   \<and> (case map_of (rf_emitters (rainbowField
          (handlePointerCancel k now (run events (initApp panner))))) k of
         None \<Rightarrow> True | Some e \<Rightarrow> \<not> em_active e)
   \<and> sounds (handlePointerCancel k now (run events (initApp panner)))
       = sounds (run events (initApp panner))
   \<and> rf_pulses (rainbowField (handlePointerCancel k now (run events (initApp panner))))
       = rf_pulses (rainbowField (run events (initApp panner)))
   \<and> timeouts (handlePointerCancel k now (run events (initApp panner)))
       = (case map_of (voices (run events (initApp panner))) k of
            None \<Rightarrow> timeouts (run events (initApp panner))
          | Some v \<Rightarrow> timeouts (run events (initApp panner))
              @ [(nextTimeoutId (run events (initApp panner)), k, v\<lparr>v_gain := 0\<rparr>)])
   \<and> handlePointerCancel k now' (handlePointerUp k x y w now (run events (initApp panner)))
       = handlePointerUp k x y w now (run events (initApp panner))
   \<and> handlePointerUp k x y w now' (handlePointerCancel k now (run events (initApp panner)))
       = handlePointerCancel k now (run events (initApp panner))
   \<and> handlePointerCancel k now' (handlePointerCancel k now (run events (initApp panner)))
       = handlePointerCancel k now (run events (initApp panner))
   \<and> map_of (voices (handlePointerUp k x y w now (run events (initApp panner)))) k = None
   \<and> map_of (voices (handlePointerDown_resume r k x' y' w' h' now'
          (handlePointerCancel k now (run events (initApp panner))))) k = None
   \<and> sounds (handlePointerDown_resume r k x' y' w' h' now'
          (handlePointerCancel k now (run events (initApp panner))))
       = sounds (run events (initApp panner))
   \<and> (k \<notin> activePointers (run events (initApp panner))
        \<and> map_of (voices (run events (initApp panner))) k = None
        \<and> map_of (pointerMeta (run events (initApp panner))) k = None
        \<and> map_of (rf_emitters (rainbowField (run events (initApp panner)))) k = None
       \<longrightarrow> handlePointerCancel k now (run events (initApp panner))
             = run events (initApp panner))"
proof -
  define s where "s = run events (initApp panner)"
  have ok: "appOK s"
    unfolding s_def by (rule appOK_reachable)
  note qc = cancel_quiet[OF ok, of k now] and qu = up_quiet[OF ok, of k x y w now]
  have t: "timeouts (handlePointerCancel k now s)
       = (case map_of (voices s) k of None \<Rightarrow> timeouts s
          | Some v \<Rightarrow> timeouts s @ [(nextTimeoutId s, k, v\<lparr>v_gain := 0\<rparr>)])"
    using appOK_voices_context[OF ok, of k]
    by (simp add: cancel_effects split: option.splits)
  have o: "oscillators (handlePointerCancel k now s)
       = (case map_of (voices s) k of None \<Rightarrow> oscillators s
          | Some v \<Rightarrow> removeAll (v_oscillator v) (oscillators s))"
    using appOK_voices_context[OF ok, of k]
    by (simp add: cancel_effects split: option.splits)
  have u: "handlePointerCancel k now s = s"
    if "k \<notin> activePointers s" "map_of (voices s) k = None" "map_of (pointerMeta s) k = None"
      "map_of (rf_emitters (rainbowField s)) k = None"
    using that by (intro quiet_cancel) (simp add: quiet_def)
  have na: "k \<notin> activePointers (handlePointerCancel k now s)"
    using qc by (simp add: quiet_def)
  note ri = resume_inactive(1,2)[OF na, of r x' y' w' h' now']
  show ?thesis
    unfolding s_def[symmetric]
    using qc qu t o u quiet_cancel[OF qu, of now'] quiet_up[OF qc, of x y w now']
      quiet_cancel[OF qc, of now']
    by (simp add: quiet_def cancel_effects(1,2) ri)
qed

text \<open>
  Claim C6. A pointer-cancel is to release the pointer's voice and emitter without a
  one-shot sound, to be idempotent with pointer-up, and never to leave an orphaned voice.
  The code leaves one where a voice of the pointer has been overwritten in the map. Below,
  the audio context is still resuming when pointer 1 goes down, is cancelled and goes
  down again, and then both pending pointer-downs resume: two oscillators sound and the
  map holds the second voice only. The pointer-cancel that follows empties the map and
  stops the second oscillator; the first still sounds, and a further pointer-cancel and
  pointer-up do not stop it.
\<close>

theorem C6_cancel_leaves_overwritten_oscillator:
  "oscillators (run [PointerDown True 1, PointerCancel 1 1050, PointerDown True 1,
        AudioSettled True 1 100 300 900 600 1100, AudioSettled True 1 800 300 900 600 1100]
        (initApp True)) = [0, 1]
   \<and> oscillators (run [PointerDown True 1, PointerCancel 1 1050, PointerDown True 1,
        AudioSettled True 1 100 300 900 600 1100, AudioSettled True 1 800 300 900 600 1100,
        PointerCancel 1 1500] (initApp True)) = [0]
   \<and> voices (run [PointerDown True 1, PointerCancel 1 1050, PointerDown True 1,
        AudioSettled True 1 100 300 900 600 1100, AudioSettled True 1 800 300 900 600 1100,
        PointerCancel 1 1500] (initApp True)) = []
   \<and> oscillators (run [PointerDown True 1, PointerCancel 1 1050, PointerDown True 1,
        AudioSettled True 1 100 300 900 600 1100, AudioSettled True 1 800 300 900 600 1100,
        PointerCancel 1 1500, PointerCancel 1 1600, PointerUp 1 800 300 900 1700]
        (initApp True)) = [0]"
  by (simp add: run_def initApp_def handlePointerDown_begin_def ensureAudioContext_def
      handlePointerCancel_def handlePointerUp_def handlePointerDown_resume_def stopVoice_def
      releaseEmitter_def newRainbowField_def setEmitter_def Let_def update_conv')

lemma up_tap:
  assumes "appOK s" and "map_of (pointerMeta s) k = Some m" and "\<not> triggeredShimmer m"
    and "now - startTime m < 220" and "totalDistance m < 32"
  shows "handlePointerUp k x y w now s
    = triggerBellChime x y (getFrequencyForPosition (startX m) w) now
        ((stopVoice k (s\<lparr>activePointers := activePointers s - {k}\<rparr>))
          \<lparr>rainbowField := releaseEmitter now k (rainbowField s),
           pointerMeta := AList.delete k (pointerMeta s)\<rparr>)"
  using assms appOK_meta_context[OF assms(1,2)]
  by (simp add: handlePointerUp_def Let_def stopVoice_fields)

lemma resume_records_start:
  assumes "audioContext s" and "k \<in> activePointers s"
  shows "map_of (pointerMeta (handlePointerDown_resume True k x y w h now s)) k
    = Some \<lparr>startX = x, startY = y, lastX = x, lastY = y, totalDistance = 0,
           startTime = now, instrumentLocked = False, triggeredShimmer = False\<rparr>"
proof -
  define s1 where "s1 = (case map_of (releaseTimers s) k of
                    None \<Rightarrow> s
                  | Some releaseTimer \<Rightarrow>
                      if releaseTimer = 0 then s
                      else s\<lparr>timeouts := filter (\<lambda>t. fst t \<noteq> releaseTimer) (timeouts s),
                             releaseTimers := AList.delete k (releaseTimers s)\<rparr>)"
  have f: "activePointers s1 = activePointers s"
    by (simp add: s1_def split: option.splits)
  show ?thesis
    using assms f
    by (simp add: handlePointerDown_resume_def s1_def[symmetric] Let_def update_conv')
qed

lemma move_tone_explicit:
  assumes "map_of (voices s) k = Some voice" and "map_of (pointerMeta s) k = Some meta"
    and "audioContext s" and "\<not> triggeredShimmer meta" and "\<not> flares meta x y"
  shows "handlePointerMove k x y w h now s
     = s\<lparr>pointerMeta := AList.update k (tonedMeta meta voice x y) (pointerMeta s),
          voices := AList.update k (tonedVoice meta voice x y w h) (voices s),
          rainbowField := setEmitter now k x y (getFrequencyForPosition x w) (rainbowField s)\<rparr>"
proof -
  consider "instrumentLocked meta" | "\<not> \<bar>x - startX meta\<bar> > 60" | "\<not> \<bar>y - startY meta\<bar> > 60"
    | "\<not> \<bar>\<bar>x - startX meta\<bar> - \<bar>y - startY meta\<bar>\<bar> < 40"
    using assms(5) unfolding flares_def by blast
  then show ?thesis
    by cases
      (use assms(1-4) in \<open>simp_all add: handlePointerMove_def Let_def tonedMeta_def
         tonedVoice_def movedMeta_def\<close>)
qed

lemma tonedMeta_start:
  "startX (tonedMeta meta voice x y) = startX meta"
  "startY (tonedMeta meta voice x y) = startY meta"
  "startTime (tonedMeta meta voice x y) = startTime meta"
  "triggeredShimmer (tonedMeta meta voice x y) = triggeredShimmer meta"
  by (simp_all add: tonedMeta_def movedMeta_def Let_def)

lemma move_keeps_start:
  assumes "map_of (pointerMeta s) k = Some m"
  shows "\<exists>m'. map_of (pointerMeta (handlePointerMove j x y w h now s)) k = Some m'
    \<and> startX m' = startX m \<and> startY m' = startY m \<and> startTime m' = startTime m"
proof -
  consider (idle) "map_of (voices s) j = None \<or> map_of (pointerMeta s) j = None \<or> \<not> audioContext s"
    | (resolved) voice meta where "map_of (voices s) j = Some voice"
        "map_of (pointerMeta s) j = Some meta" "audioContext s" "triggeredShimmer meta"
    | (flare) voice meta where "map_of (voices s) j = Some voice"
        "map_of (pointerMeta s) j = Some meta" "audioContext s" "\<not> triggeredShimmer meta"
        "flares meta x y"
    | (tone) voice meta where "map_of (voices s) j = Some voice"
        "map_of (pointerMeta s) j = Some meta" "audioContext s" "\<not> triggeredShimmer meta"
        "\<not> flares meta x y"
    by (cases "map_of (voices s) j"; cases "map_of (pointerMeta s) j"; blast)
  then show ?thesis
  proof cases
    case idle
    then show ?thesis
      using assms by (simp add: move_idle)
  next
    case resolved
    have "pointerMeta (handlePointerMove j x y w h now s)
        = AList.update j (movedMeta meta x y) (pointerMeta s)"
      by (simp add: move_resolved[OF resolved])
    then show ?thesis
      using assms resolved(2) by (cases "j = k") (simp_all add: update_conv' movedMeta_def)
  next
    case flare
    have "pointerMeta (handlePointerMove j x y w h now s)
        = AList.update j ((movedMeta meta x y)\<lparr>triggeredShimmer := True\<rparr>) (pointerMeta s)"
      by (simp add: move_flare[OF flare] triggerShimmerArpeggio_def stopVoice_fields)
    then show ?thesis
      using assms flare(2) by (cases "j = k") (simp_all add: update_conv' movedMeta_def)
  next
    case tone
    have "pointerMeta (handlePointerMove j x y w h now s)
        = AList.update j (tonedMeta meta voice x y) (pointerMeta s)"
      by (simp add: move_tone_explicit[OF tone])
    then show ?thesis
      using assms tone(2) by (cases "j = k") (simp_all add: update_conv' tonedMeta_start)
  qed
qed

text \<open>
  The tap of a recorded gesture. Let a gesture be in progress for a pointer: its
  pointer-down has passed the wait for the audio context and has recorded the metadata.
  Let no shimmer have fired, and let the pointer go up less than 220 ms after the
  recorded start with an accumulated distance below 32 px. Then exactly one one-shot
  sound is started, a bell chime, at the release position \<open>(x, y)\<close> (where its pulse is
  drawn) and with the frequency of the start position \<open>startX\<close>, not of the release
  position; the map holds no voice for the pointer, and its metadata and active mark are
  gone. The recorded start is not changed by pointer-move events.
\<close>

lemma tap_of_recorded_gesture:
  assumes "map_of (pointerMeta (run events (initApp panner))) k = Some m"
    and "\<not> triggeredShimmer m"
    and "now - startTime m < 220" and "totalDistance m < 32"
  shows "sounds (handlePointerUp k x y w now (run events (initApp panner)))
       = sounds (run events (initApp panner))
           @ [BellChime x y (getFrequencyForPosition (startX m) w)]
    \<and> rf_pulses (rainbowField (handlePointerUp k x y w now (run events (initApp panner))))
       = rf_pulses (rainbowField (run events (initApp panner)))
           @ [\<lparr>pu_x = x, pu_y = y, pu_frequency = getFrequencyForPosition (startX m) w,
               pu_createdAt = now, pu_ttl = 1100\<rparr>]
    \<and> map_of (voices (handlePointerUp k x y w now (run events (initApp panner)))) k = None
    \<and> map_of (pointerMeta (handlePointerUp k x y w now (run events (initApp panner)))) k = None
    \<and> k \<notin> activePointers (handlePointerUp k x y w now (run events (initApp panner)))
    \<and> (\<exists>m'. map_of (pointerMeta
          (handlePointerMove j x' y' w' h' now' (run events (initApp panner)))) k = Some m'
        \<and> startX m' = startX m \<and> startTime m' = startTime m)"
proof -
  define s where "s = run events (initApp panner)"
  have ok: "appOK s"
    unfolding s_def by (rule appOK_reachable)
  have m: "map_of (pointerMeta s) k = Some m"
    using assms(1) by (simp add: s_def)
  have ctx: "audioContext s"
    using ok m by (rule appOK_meta_context)
  note up = up_tap[OF ok m assms(2-4), of x y w]
  have q: "quiet k (handlePointerUp k x y w now s)"
    using ok by (rule up_quiet)
  have "sounds (handlePointerUp k x y w now s)
      = sounds s @ [BellChime x y (getFrequencyForPosition (startX m) w)]"
    unfolding up using ctx by (simp add: triggerBellChime_def stopVoice_fields)
  moreover have "rf_pulses (rainbowField (handlePointerUp k x y w now s))
      = rf_pulses (rainbowField s)
          @ [\<lparr>pu_x = x, pu_y = y, pu_frequency = getFrequencyForPosition (startX m) w,
              pu_createdAt = now, pu_ttl = 1100\<rparr>]"
    unfolding up using ctx
    by (simp add: triggerBellChime_def stopVoice_fields pulse_def releaseEmitter_pulses)
  ultimately show ?thesis
    unfolding s_def[symmetric]
    using q move_keeps_start[OF m, of j x' y' w' h' now'] by (auto simp: quiet_def)
qed

text \<open>
  Claim C2. Every gesture that ends with pointer-up less than 220 ms after pointer-down,
  with an accumulated distance below 32 px and no shimmer fired, is to trigger exactly one
  chime at the release position with the pitch of its start position, and to leave no
  sustained voice for the pointer. The code loses the tap that ends before its
  pointer-down has resumed: \<^verbatim>\<open>handlePointerDown\<close> records the metadata of the gesture
  only after it has awaited the audio context, so a pointer-up that arrives meanwhile
  finds no metadata and returns without a sound, and the pointer-down, resumed later,
  finds the pointer inactive and creates nothing. Below, pointer 1 goes down and is
  lifted 50 ms later at the same place while the context is still resuming: no chime is
  started, then or after the context has settled. The last clause fails as well where a
  voice of the pointer has been overwritten: after down, up, down and the two resumes, a
  tap plays its chime and the oscillator of the overwritten voice sounds on.
\<close>

theorem C2_tap_before_audio_settles_plays_no_chime:
  "sounds (run [PointerDown True 1, PointerUp 1 100 300 900 1050] (initApp True)) = []
   \<and> sounds (run [PointerDown True 1, PointerUp 1 100 300 900 1050,
                  AudioSettled True 1 100 300 900 600 1100] (initApp True)) = []
   \<and> sounds (run [PointerDown True 1, PointerUp 1 100 300 900 1050, PointerDown True 1,
        AudioSettled True 1 100 300 900 600 1100, AudioSettled True 1 800 300 900 600 1100,
        PointerUp 1 800 300 900 1150] (initApp True))
       = [BellChime 800 300 (getFrequencyForPosition 800 900)]
   \<and> oscillators (run [PointerDown True 1, PointerUp 1 100 300 900 1050, PointerDown True 1,
        AudioSettled True 1 100 300 900 600 1100, AudioSettled True 1 800 300 900 600 1100,
        PointerUp 1 800 300 900 1150] (initApp True)) = [0]"
  by (simp add: run_def initApp_def handlePointerDown_begin_def ensureAudioContext_def
      handlePointerUp_def handlePointerDown_resume_def stopVoice_def releaseEmitter_def
      newRainbowField_def setEmitter_def Let_def update_conv' triggerBellChime_def pulse_def)














section \<open>Properties of the particle systems\<close>

lemma pushParticle_particles:
  "\<exists>p. af_particles (pushParticle rnd config x y rgb fld) = af_particles fld @ [p]"
  by (simp add: pushParticle_def Let_def)

lemma pushParticle_destroyed:
  "af_destroyed (pushParticle rnd config x y rgb fld) = af_destroyed fld"
  by (simp add: pushParticle_def Let_def)

lemma spawnLoop_particles:
  "\<exists>new. length new = n
     \<and> af_particles (spawnLoop rnd config x y rgb n fld) = af_particles fld @ new"
proof (induction n arbitrary: fld)
  case 0
  then show ?case by simp
next
  case (Suc n)
  obtain p where p: "af_particles (pushParticle rnd config x y rgb fld) = af_particles fld @ [p]"
    using pushParticle_particles by blast
  obtain new where new: "length new = n"
    "af_particles (spawnLoop rnd config x y rgb n (pushParticle rnd config x y rgb fld))
       = af_particles (pushParticle rnd config x y rgb fld) @ new"
    using Suc.IH by blast
  have "length (p # new) = Suc n"
    using new(1) by simp
  moreover have "af_particles (spawnLoop rnd config x y rgb (Suc n) fld)
      = af_particles fld @ (p # new)"
    by (simp add: new(2) p)
  ultimately show ?case by blast
qed

lemma updateParticles_length: "length (fst (updateParticles rnd delta c ps)) = length ps"
  by (induction ps arbitrary: c) (simp_all add: case_prod_beta)

lemma count_bound: "vc_count (VARIANT_CONFIG variant) \<le> 1600"
  by (cases variant) simp_all

lemma cap_split:
  assumes "length old \<le> cap" and "length new \<le> cap"
  shows "\<exists>discarded kept. old = discarded @ kept
    \<and> (if length (old @ new) > cap then drop (length (old @ new) - cap) (old @ new)
        else old @ new) = kept @ new
    \<and> (discarded = [] \<or> length (kept @ new) = cap)"
proof (cases "length (old @ new) > cap")
  case True
  define n where "n = length (old @ new) - cap"
  have n: "n \<le> length old"
    using assms(2) by (simp add: n_def)
  have "old = take n old @ drop n old"
    by simp
  moreover have "drop n (old @ new) = drop n old @ new"
    using n by simp
  moreover have "length (drop n old @ new) = cap"
    using True n by (simp add: n_def)
  ultimately show ?thesis
    using True unfolding n_def[symmetric] by (metis (full_types))
next
  case False
  then show ?thesis
    by (intro exI[of _ "[]"] exI[of _ old]) simp
qed

lemma spawnBurst_length: "length (af_particles fld) \<le> 1600
  \<Longrightarrow> length (af_particles (spawnBurst rnd x y color variant fld)) \<le> 1600"
  by (simp add: spawnBurst_def Let_def)

lemma update_length:
  "length (af_particles (update rnd delta fld)) \<le> length (af_particles fld)"
proof -
  have "length (filter (\<lambda>particle. ap_life particle > 0)
      (fst (updateParticles rnd delta (af_randomCalls fld) (af_particles fld))))
    \<le> length (fst (updateParticles rnd delta (af_randomCalls fld) (af_particles fld)))"
    by (rule length_filter_le)
  then show ?thesis
    by (simp add: update_def case_prod_beta updateParticles_length)
qed

lemma loop_length: "length (af_particles (loop rnd time fld)) \<le> length (af_particles fld)"
  using update_length[of rnd _ "fld\<lparr>af_lastTime := Some time\<rparr>"]
  by (simp add: loop_def Let_def)

lemma auroraOp_length:
  "length (af_particles fld) \<le> 1600 \<Longrightarrow> length (af_particles (auroraOp rnd op fld)) \<le> 1600"
proof (cases op)
  case (SpawnBurst x y color variant)
  assume "length (af_particles fld) \<le> 1600"
  then show ?thesis
    using SpawnBurst by (simp add: spawnBurst_length)
next
  case (LoopFrame time)
  assume "length (af_particles fld) \<le> 1600"
  then show ?thesis
    using LoopFrame loop_length[of rnd time fld] by simp
next
  case DestroyAurora
  then show ?thesis
    by (simp add: destroyAurora_def)
qed

lemma runAurora_length:
  "length (af_particles fld) \<le> 1600 \<Longrightarrow> length (af_particles (runAurora rnd ops fld)) \<le> 1600"
  unfolding runAurora_def
  by (induction ops arbitrary: fld) (simp_all add: auroraOp_length)

lemma spawnParticles_length: "length (ps_particles (spawnParticles rnd x y color st)) \<le> 240"
  by (simp add: spawnParticles_def Let_def)

lemma tick_length: "length (ps_particles (tick time st)) \<le> length (ps_particles st)"
  by (simp add: tick_def Let_def)

lemma particleOp_length:
  "length (ps_particles st) \<le> 240 \<Longrightarrow> length (ps_particles (particleOp rnd op st)) \<le> 240"
proof (cases op)
  case (SpawnParticles x y color)
  then show ?thesis
    by (simp add: spawnParticles_length)
next
  case (Tick time)
  assume "length (ps_particles st) \<le> 240"
  then show ?thesis
    using Tick tick_length[of time st] by simp
qed

lemma runParticles_length:
  "length (ps_particles st) \<le> 240 \<Longrightarrow> length (ps_particles (runParticles rnd ops st)) \<le> 240"
  unfolding runParticles_def
  by (induction ops arbitrary: st) (simp_all add: particleOp_length)

lemma spawnBurst_split:
  assumes "length (af_particles fld) \<le> 1600" and "\<not> af_destroyed fld"
  shows "\<exists>discarded kept new. af_particles fld = discarded @ kept
    \<and> length new = vc_count (VARIANT_CONFIG variant)
    \<and> af_particles (spawnBurst rnd x y color variant fld) = kept @ new
    \<and> (discarded = [] \<or> length (kept @ new) = 1600)"
proof -
  define config where "config = VARIANT_CONFIG variant"
  obtain new where new: "length new = vc_count config"
    "af_particles (spawnLoop rnd config x y (hexToRgb color) (vc_count config) fld)
       = af_particles fld @ new"
    using spawnLoop_particles by blast
  have "length new \<le> 1600"
    using new(1) count_bound[of variant] by (simp add: config_def)
  from cap_split[OF assms(1) this] obtain discarded kept where
    s: "af_particles fld = discarded @ kept"
      "(if length (af_particles fld @ new) > 1600
        then drop (length (af_particles fld @ new) - 1600) (af_particles fld @ new)
        else af_particles fld @ new) = kept @ new"
      "discarded = [] \<or> length (kept @ new) = 1600"
    by blast
  have "af_particles (spawnBurst rnd x y color variant fld)
     = (if length (af_particles fld @ new) > 1600
        then drop (length (af_particles fld @ new) - 1600) (af_particles fld @ new)
        else af_particles fld @ new)"
    using assms(2) new(2)
    by (simp add: spawnBurst_def Let_def config_def[symmetric])
  then show ?thesis
    using s new(1) unfolding config_def by metis
qed

lemma spawnParticles_split:
  assumes "length (ps_particles st) \<le> 240"
  shows "\<exists>discarded kept new. ps_particles st = discarded @ kept
    \<and> length new = 6
    \<and> ps_particles (spawnParticles rnd x y color st) = kept @ new
    \<and> (discarded = [] \<or> length (kept @ new) = 240)"
proof -
  define new where "new = map (\<lambda>i. makeParticle rnd x y (hexToRgb color)
      (ps_randomCalls st + 5 * i) (ps_particleId st + i)) [0..<6]"
  have l: "length new = 6"
    by (simp add: new_def)
  then have "length new \<le> 240"
    by simp
  from cap_split[OF assms this] obtain discarded kept where
    s: "ps_particles st = discarded @ kept"
      "(if length (ps_particles st @ new) > 240
        then drop (length (ps_particles st @ new) - 240) (ps_particles st @ new)
        else ps_particles st @ new) = kept @ new"
      "discarded = [] \<or> length (kept @ new) = 240"
    by blast
  have "ps_particles (spawnParticles rnd x y color st)
     = (if length (ps_particles st @ new) > 240
        then drop (length (ps_particles st @ new) - 240) (ps_particles st @ new)
        else ps_particles st @ new)"
    unfolding spawnParticles_def Let_def new_def[symmetric]
    by (simp del: length_append drop_append)
  then show ?thesis
    using s l by metis
qed

text \<open>
  Claim C9. After every sequence of particle spawns and frame updates (and, for the
  particle field, destruction) starting from the empty system, the number of live
  particles is at most the hard cap: 1600 in the particle field, 240 in the inline
  variant. A spawn appends the new particles (as many as the variant's count, 6 in the
  inline variant) after the particles present; when that exceeds the cap, the particles
  discarded are a prefix of the particles present, the oldest ones, exactly as many as
  needed to come down to the cap, and all newly spawned particles are retained.
\<close>

theorem C9_particle_count_is_capped:
  "length (af_particles (runAurora rnd ops newAuroraField)) \<le> 1600
   \<and> length (ps_particles (runParticles rnd pops newParticleState)) \<le> 240
   \<and> (\<not> af_destroyed (runAurora rnd ops newAuroraField) \<longrightarrow>
        (\<exists>discarded kept new.
           af_particles (runAurora rnd ops newAuroraField) = discarded @ kept
         \<and> length new = vc_count (VARIANT_CONFIG variant)
         \<and> af_particles (spawnBurst rnd x y color variant (runAurora rnd ops newAuroraField))
             = kept @ new
         \<and> (discarded = [] \<or> length (kept @ new) = 1600)))
   \<and> (\<exists>discarded kept new.
           ps_particles (runParticles rnd pops newParticleState) = discarded @ kept
         \<and> length new = 6
         \<and> ps_particles (spawnParticles rnd x y color (runParticles rnd pops newParticleState))
             = kept @ new
         \<and> (discarded = [] \<or> length (kept @ new) = 240))"
proof -
  have a: "length (af_particles (runAurora rnd ops newAuroraField)) \<le> 1600"
    by (rule runAurora_length) (simp add: newAuroraField_def)
  have p: "length (ps_particles (runParticles rnd pops newParticleState)) \<le> 240"
    by (rule runParticles_length) (simp add: newParticleState_def)
  show ?thesis
    using a p
      spawnBurst_split[OF a, where rnd = rnd and x = x and y = y and color = color
        and variant = variant]
      spawnParticles_split[OF p, where rnd = rnd and x = x and y = y and color = color]
    by blast
qed

theorem C9_particle_cap_witness:
  "\<not> af_destroyed (runAurora (\<lambda>_. 1 / 2) [] newAuroraField)
   \<and> length (af_particles (spawnBurst (\<lambda>_. 1 / 2) 10 20 ''#38bdf8'' lead_v
        (runAurora (\<lambda>_. 1 / 2) [] newAuroraField))) = 16"
  using C9_particle_count_is_capped[where rnd = "\<lambda>_. 1 / 2" and ops = "[]" and pops = "[]"
      and variant = lead_v and x = 10 and y = 20 and color = "''#38bdf8''"]
  by (auto simp: runAurora_def newAuroraField_def)

section \<open>Properties of the instrument grid\<close>

lemma showNat_small: "n < 10 \<Longrightarrow> showNat n = [''0123456789'' ! n]"
  by (subst showNat.simps) simp

lemma grid_instruments:
  "map_option (map (\<lambda>cell. (gc_id cell, gc_instrument cell))) GRID_CELLS
     = Some (map (\<lambda>i. (i,
         if PERCUSSIVE_PATTERN ! (i div GRID_COLUMNS) ! (i mod GRID_COLUMNS)
         then createPercussiveInstrument
                (ins_id (gs_instrument (GRID_SPEC ! (i div GRID_COLUMNS) ! (i mod GRID_COLUMNS)))
                   @ ''-'' @ showNat i)
                (ROW_BASES ! (i div GRID_COLUMNS) * COLUMN_RATIOS ! (i mod GRID_COLUMNS)) i
         else gs_instrument (GRID_SPEC ! (i div GRID_COLUMNS) ! (i mod GRID_COLUMNS))))
       [0..<GRID_ROWS * GRID_COLUMNS])"
  by code_simp

lemma map_option_nth:
  assumes "map_option (map f) xo = Some (map g [0..<n])" and "i < n"
  shows "\<exists>xs. xo = Some xs \<and> length xs = n \<and> f (xs ! i) = g i"
proof (cases xo)
  case None
  then show ?thesis
    using assms(1) by simp
next
  case (Some xs)
  then have m: "map f xs = map g [0..<n]"
    using assms(1) by simp
  then have "length (map f xs) = length (map g [0..<n])"
    by (rule arg_cong)
  then have l: "length xs = n"
    by simp
  have "map f xs ! i = map g [0..<n] ! i"
    using m by (rule arg_cong)
  then have "f (xs ! i) = g i"
    using assms(2) l by simp
  then show ?thesis
    using Some l by simp
qed

lemma grid_cell_instrument:
  assumes "i < GRID_ROWS * GRID_COLUMNS"
  shows "\<exists>cells. GRID_CELLS = Some cells \<and> length cells = GRID_ROWS * GRID_COLUMNS
    \<and> (gc_id (cells ! i), gc_instrument (cells ! i))
        = (i, if PERCUSSIVE_PATTERN ! (i div GRID_COLUMNS) ! (i mod GRID_COLUMNS)
           then createPercussiveInstrument
                  (ins_id (gs_instrument (GRID_SPEC ! (i div GRID_COLUMNS) ! (i mod GRID_COLUMNS)))
                     @ ''-'' @ showNat i)
                  (ROW_BASES ! (i div GRID_COLUMNS) * COLUMN_RATIOS ! (i mod GRID_COLUMNS)) i
           else gs_instrument (GRID_SPEC ! (i div GRID_COLUMNS) ! (i mod GRID_COLUMNS)))"
  using grid_instruments assms by (rule map_option_nth)

text \<open>
  Claim C8. The generation of the percussive instrument variants is deterministic: two
  invocations of \<^verbatim>\<open>createPercussiveInstrument\<close> with the same base id, base frequency and
  variant index give instrument definitions that are equal, hence equal in every
  parameter (waveform, detune, attack, sustain, release, filter settings and every field
  of the tap configuration). The grid is built without failure, and the cell at a grid
  index marked percussive carries the instrument generated from the index alone: from the
  id of the row's default instrument followed by the index, the frequency of the cell's
  row and column, and the index as variant.
\<close>

theorem C8_percussive_instruments_are_reproducible:
  assumes "baseId = baseId'" and "baseFrequency = baseFrequency'" and "variant = variant'"
    and "i < GRID_ROWS * GRID_COLUMNS"
    and "PERCUSSIVE_PATTERN ! (i div GRID_COLUMNS) ! (i mod GRID_COLUMNS)"
  shows "createPercussiveInstrument baseId baseFrequency variant
           = createPercussiveInstrument baseId' baseFrequency' variant'
    \<and> ins_waveform (createPercussiveInstrument baseId baseFrequency variant)
        = [square, sawtooth, triangle, square, sine] ! (variant' mod 5)
    \<and> ins_detune (createPercussiveInstrument baseId baseFrequency variant)
        = Some (real (variant' mod 5) * 2 - 4)
    \<and> fl_frequency (ins_filter (createPercussiveInstrument baseId baseFrequency variant))
        = clamp (baseFrequency' * 1.7 + real variant' * 35) 350 5200
    \<and> tap_gain (ins_tap (createPercussiveInstrument baseId baseFrequency variant))
        = 0.38 + real (variant' mod 3) * 0.03
    \<and> (\<exists>cells. GRID_CELLS = Some cells \<and> length cells = GRID_ROWS * GRID_COLUMNS
        \<and> gc_id (cells ! i) = i
        \<and> gc_instrument (cells ! i)
            = createPercussiveInstrument
                (ins_id (gs_instrument (GRID_SPEC ! (i div GRID_COLUMNS) ! (i mod GRID_COLUMNS)))
                   @ ''-'' @ showNat i)
                (ROW_BASES ! (i div GRID_COLUMNS) * COLUMN_RATIOS ! (i mod GRID_COLUMNS)) i)"
proof -
  have p1: "createPercussiveInstrument baseId baseFrequency variant
           = createPercussiveInstrument baseId' baseFrequency' variant'"
    using assms(1-3) by simp
  have p2: "ins_waveform (createPercussiveInstrument baseId baseFrequency variant)
        = [square, sawtooth, triangle, square, sine] ! (variant' mod 5)"
    "ins_detune (createPercussiveInstrument baseId baseFrequency variant)
        = Some (real (variant' mod 5) * 2 - 4)"
    "fl_frequency (ins_filter (createPercussiveInstrument baseId baseFrequency variant))
        = clamp (baseFrequency' * 1.7 + real variant' * 35) 350 5200"
    "tap_gain (ins_tap (createPercussiveInstrument baseId baseFrequency variant))
        = 0.38 + real (variant' mod 3) * 0.03"
    unfolding assms(1-3) by (simp_all add: createPercussiveInstrument_def Let_def)
  obtain cells where c: "GRID_CELLS = Some cells" "length cells = GRID_ROWS * GRID_COLUMNS"
    "(gc_id (cells ! i), gc_instrument (cells ! i))
        = (i, if PERCUSSIVE_PATTERN ! (i div GRID_COLUMNS) ! (i mod GRID_COLUMNS)
           then createPercussiveInstrument
                  (ins_id (gs_instrument (GRID_SPEC ! (i div GRID_COLUMNS) ! (i mod GRID_COLUMNS)))
                     @ ''-'' @ showNat i)
                  (ROW_BASES ! (i div GRID_COLUMNS) * COLUMN_RATIOS ! (i mod GRID_COLUMNS)) i
           else gs_instrument (GRID_SPEC ! (i div GRID_COLUMNS) ! (i mod GRID_COLUMNS)))"
    using grid_cell_instrument[OF assms(4)] by blast
  from c(3) have c3: "gc_id (cells ! i) = i"
    "gc_instrument (cells ! i)
        = createPercussiveInstrument
                  (ins_id (gs_instrument (GRID_SPEC ! (i div GRID_COLUMNS) ! (i mod GRID_COLUMNS)))
                     @ ''-'' @ showNat i)
                  (ROW_BASES ! (i div GRID_COLUMNS) * COLUMN_RATIOS ! (i mod GRID_COLUMNS)) i"
    unfolding prod.inject using assms(5) by (simp_all only: if_True)
  have p3: "\<exists>cells. GRID_CELLS = Some cells \<and> length cells = GRID_ROWS * GRID_COLUMNS
        \<and> gc_id (cells ! i) = i
        \<and> gc_instrument (cells ! i)
            = createPercussiveInstrument
                (ins_id (gs_instrument (GRID_SPEC ! (i div GRID_COLUMNS) ! (i mod GRID_COLUMNS)))
                   @ ''-'' @ showNat i)
                (ROW_BASES ! (i div GRID_COLUMNS) * COLUMN_RATIOS ! (i mod GRID_COLUMNS)) i"
    using c(1,2) c3 by (intro exI[of _ cells] conjI)
  show ?thesis
    by (intro conjI p1 p2 p3)
qed

theorem C8_percussive_instruments_witness:
  "''bloom-6'' = ''bloom-6'' \<and> (523.2646::real) = 523.2646 \<and> (6::nat) = 6
   \<and> 6 < GRID_ROWS * GRID_COLUMNS
   \<and> PERCUSSIVE_PATTERN ! (6 div GRID_COLUMNS) ! (6 mod GRID_COLUMNS)
   \<and> ins_waveform (createPercussiveInstrument ''bloom-6'' 523.2646 6) = sawtooth
   \<and> ins_detune (createPercussiveInstrument ''bloom-6'' 523.2646 6) = Some (- 2)
   \<and> fl_frequency (ins_filter (createPercussiveInstrument ''bloom-6'' 523.2646 6))
       = 1099.54982
   \<and> (\<exists>cells. GRID_CELLS = Some cells
        \<and> gc_instrument (cells ! 6) = createPercussiveInstrument ''bloom-6'' 523.2646 6)"
proof -
  have h: "''bloom-6'' = ''bloom-6''" "(523.2646::real) = 523.2646" "(6::nat) = 6"
      "6 < GRID_ROWS * GRID_COLUMNS"
      "PERCUSSIVE_PATTERN ! (6 div GRID_COLUMNS) ! (6 mod GRID_COLUMNS)"
    by (simp_all add: GRID_ROWS_def GRID_COLUMNS_def PERCUSSIVE_PATTERN_def)
  have a: "ins_id (gs_instrument (GRID_SPEC ! (6 div GRID_COLUMNS) ! (6 mod GRID_COLUMNS)))
      @ ''-'' @ showNat 6 = ''bloom-6''"
    by (simp add: GRID_COLUMNS_def GRID_SPEC_def showNat_small)
  have b: "ROW_BASES ! (6 div GRID_COLUMNS) * COLUMN_RATIOS ! (6 mod GRID_COLUMNS) = 523.2646"
    by (simp add: GRID_COLUMNS_def ROW_BASES_def COLUMN_RATIOS_def)
  have c: "clamp (523.2646 * 1.7 + real (6::nat) * 35) 350 5200 = (1099.54982::real)"
    by (simp add: clamp_def)
  note t = C8_percussive_instruments_are_reproducible[OF h, unfolded a b c]
  have w: "[square, sawtooth, triangle, square, sine] ! (6 mod 5) = sawtooth"
     and d: "real ((6::nat) mod 5) * 2 - 4 = - 2"
    by simp_all
  from t show ?thesis
    unfolding w d using h(4,5) by blast
qed

end
